theory Spec2Isabelle
  imports Main "HOL-Library.Char_ord" "HOL-Library.List_Lexorder" "HOL-Library.AList"
begin

section \<open>The ZEO asyncio client (src/ZEO/asyncio/client.py)\<close>

text \<open>
  The module holds three classes that share one I/O thread: \<open>Protocol\<close> (one connection),
  \<open>Client\<close> (the candidate connections of one storage, and its cache) and
  \<open>ClientRunner\<close> (the blocking call surface of the other threads).

  The embedding is a state-passing one. All objects of the I/O thread live in one record,
  \<open>world\<close>: the fields of the \<open>Client\<close>, a heap of \<open>Protocol\<close> objects addressed by
  identity, and the \<open>trace\<close> of every call the code makes on an object it does not own
  (transport, timers, logger, cache, the embedding application, completion objects), in
  the order in which the calls are made. What those objects answer is taken from an
  environment record \<open>env\<close>; a call on the cache, the application or the event registry may
  raise, which the environment decides (\<open>fault\<close>).

  A completion (\<open>Fut\<close>, \<open>asyncio.Future\<close>, \<open>concurrent.futures.Future\<close>) is represented
  by its class and identity, and its resolution is an entry of the trace. The generators
  decorated with \<open>future_generator\<close> are cut at their \<open>yield\<close>s: each piece between two
  \<open>yield\<close>s is one function here, taking the outcome that the resolved completion sends
  (\<open>Inr\<close>) or throws (\<open>Inl\<close>) into the generator.

  A library completion is resolved by one call on a library object. A \<open>Fut\<close>, the class
  of this module, calls its callback inside \<open>set_exception\<close> and \<open>set_result\<close>, and the
  callback resumes a generator of this module, which may raise, or change the Client,
  before the resolving call goes on. The operations that resolve a \<open>Fut\<close> and have code
  left to run are therefore given with the callbacks as a parameter \<open>cb\<close>:
  \<open>Protocol_close_cb\<close>, \<open>clear_protocols_cb\<close>, \<open>disconnected_cb\<close>, \<open>register_failed_cb\<close>,
  \<open>verify_cb\<close>, and \<open>connection_lost\<close>, \<open>upgrade\<close>, \<open>registered\<close>, \<open>message_received\<close>.
  The definitions \<open>Protocol_close\<close>, \<open>clear_protocols\<close>, \<open>disconnected\<close>,
  \<open>register_failed\<close> and \<open>verify\<close> are the same operations as they run when no callback
  does anything inside them, which is the case when no \<open>Fut\<close> is pending on the Protocols
  they close; the subsection on callbacks that do nothing relates the two.
\<close>

subsection \<open>Values, exceptions, frames\<close>

type_synonym bytes = string
type_synonym tid = bytes
type_synonym oid = bytes
type_synonym pid = nat
type_synonym fid = nat

text \<open>Byte strings compare as in Python: lexicographically, a proper prefix first.\<close>

datatype msgid = MsgNum int | MsgKey oid tid

text \<open>
  A class object as \<open>message_received\<close> inspects it: \<open>__module__\<close>, \<open>__name__\<close>, the
  names on its method resolution order (itself included) and whether \<open>type(cls)\<close> is
  \<open>type\<close>.
\<close>

datatype pyclass =
  PyClass (class_module: string) (class_name: string) (mro: "string list") (metaclass_is_type: bool)

datatype pyval =
    PNone
  | PBool bool
  | PInt int
  | PBytes bytes
  | PStr string
  | PTuple "pyval list"
  | PList "pyval list"
  | PClass pyclass
  | PInstance pyclass "pyval list"

definition issubclass :: "pyclass \<Rightarrow> string list \<Rightarrow> bool" where
  "issubclass c names = list_ex (\<lambda>n. n \<in> set (mro c)) names"

text \<open>A reference to an object as \<open>register_failed\<close> and the logger receive it: \<open>None\<close>,
  a \<open>Protocol\<close> or the \<open>Client\<close> itself.\<close>

datatype obj = NoneObj | ProtocolObj pid | ClientObj

datatype exn =
    ClientDisconnected exn_arg
  | ProtocolError bytes
  | ServerBehindClient tid tid obj
  | AssertionError
  | KeyError msgid
  | AttributeError string
  | TypeError
  | TimeoutError
  | Raised pyval
and exn_arg = NoArg | StrArg string | ExnArg exn

text \<open>
  \<open>ServerBehindClient server_tid cache_tid protocol\<close> is the \<open>AssertionError\<close> that
  \<open>verify\<close> raises with these three arguments; \<open>Raised v\<close> is an exception object that
  came over the wire.
\<close>

datatype ro_mode = RO bool | Fallback

fun ro_truthy :: "ro_mode \<Rightarrow> bool" where
  "ro_truthy (RO b) = b"
| "ro_truthy Fallback = True"

datatype fut_kind = Fut | AsyncioFuture | ConcurrentFuture

datatype future = Future fut_kind fid

datatype addr = TcpAddr string nat | UnixAddr string

datatype frame =
    Handshake bytes
  | Frame msgid bool string "pyval list"

datatype level = DEBUG | INFO | ERROR | CRITICAL | EXCEPTION

text \<open>The arguments of a log call: an object, an exception (or \<open>None\<close>), a value, a
  text, and the \<open>__name__\<close> of the application object (the empty text when it has none).\<close>

datatype logarg = LObj obj | LExc "exn option" | LVal pyval | LText string | LClientName

datatype timer = Try_connecting | Heartbeat pid

datatype event =
    Write pid frame
  | CreateConnection pid addr
  | ConnectingCancel pid
  | TransportClose pid
  | HeartbeatCancel pid
  | CallLater timer
  | Log level string "logarg list"
  | CacheInvalidate oid "tid option"
  | CacheStore oid tid "tid option" bytes
  | CacheSetLastTid tid
  | CacheClear
  | CacheClose
  | InvalidateCache
  | InvalidateTransaction tid "oid list"
  | Serialnos "(oid \<times> pyval) list"
  | Delegated string pyval
  | NotifyConnected pyval
  | NotifyDisconnected
  | NotifyStaleCache
  | OnCommit tid
  | SetResult future pyval
  | SetException future exn
  | Cancel future

subsection \<open>State\<close>

record protocol =
  storage_key :: string
  read_only :: ro_mode
  closed :: bool
  transport :: bool
  futures :: "(msgid \<times> future) list"
  message_id :: int
  protocol_version :: "bytes option"

record world =
  addrs :: "addr list"
  client_storage_key :: string
  client_read_only :: ro_mode
  client_closed :: bool
  protocol :: "pid option"
  protocols :: "pid list"
  ready :: "bool option"
  connected :: future
  verify_result :: "string option"
  protos :: "pid \<Rightarrow> protocol"
  next_pid :: pid
  next_fid :: fid
  trace :: "event list"

record env =
  cache_nonempty :: bool
  cache_getLastTid :: "tid option"
  fault :: "event \<Rightarrow> exn option"

type_synonym 'a action = "world \<Rightarrow> (exn + 'a) \<times> world"

definition emit :: "event \<Rightarrow> world \<Rightarrow> world" where
  "emit e w = w\<lparr>trace := trace w @ [e]\<rparr>"

definition ext :: "env \<Rightarrow> event \<Rightarrow> unit action" where
  "ext env e w = ((case fault env e of None \<Rightarrow> Inr () | Some x \<Rightarrow> Inl x), emit e w)"

definition then_do :: "'a action \<Rightarrow> ('a \<Rightarrow> 'b action) \<Rightarrow> 'b action" where
  "then_do m f w = (case m w of (Inl e, w') \<Rightarrow> (Inl e, w') | (Inr x, w') \<Rightarrow> f x w')"

definition done_ok :: "world \<Rightarrow> (exn + unit) \<times> world" where
  "done_ok w = (Inr (), w)"

fun for_each :: "'a list \<Rightarrow> ('a \<Rightarrow> unit action) \<Rightarrow> unit action" where
  "for_each [] body w = (Inr (), w)"
| "for_each (x # xs) body w =
     (case body x w of (Inl e, w') \<Rightarrow> (Inl e, w') | (Inr u, w') \<Rightarrow> for_each xs body w')"

definition set_proto :: "pid \<Rightarrow> (protocol \<Rightarrow> protocol) \<Rightarrow> world \<Rightarrow> world" where
  "set_proto p f w = w\<lparr>protos := (protos w)(p := f (protos w p))\<rparr>"

definition new_future :: "fut_kind \<Rightarrow> world \<Rightarrow> future \<times> world" where
  "new_future k w = (Future k (next_fid w), w\<lparr>next_fid := Suc (next_fid w)\<rparr>)"

subsection \<open>Protocol: the request multiplexer\<close>

text \<open>
  \<^verbatim>\<open>
  def call(self, future, method, args):
      self.message_id += 1
      self.futures[self.message_id] = future
      self._write(self.encode(self.message_id, False, method, args))
      return future

  def fut(self, method, *args):
      return self.call(Fut(), method, args)

  def load_before(self, oid, tid):
      message_id = (oid, tid)
      future = self.futures.get(message_id)
      if future is None:
          future = asyncio.Future(loop=self.loop)
          self.futures[message_id] = future
          self._write(
              self.encode(message_id, False, 'loadBefore', (oid, tid)))
      return future
  \<close>
\<close>

definition call :: "pid \<Rightarrow> future \<Rightarrow> string \<Rightarrow> pyval list \<Rightarrow> world \<Rightarrow> future \<times> world" where
  "call p future method args w =
     (let m = message_id (protos w p) + 1;
          w1 = set_proto p (\<lambda>P. P\<lparr>message_id := m,
                 futures := AList.update (MsgNum m) future (futures P)\<rparr>) w
      in (future, emit (Write p (Frame (MsgNum m) False method args)) w1))"

definition fut :: "pid \<Rightarrow> string \<Rightarrow> pyval list \<Rightarrow> world \<Rightarrow> future \<times> world" where
  "fut p method args w = (case new_future Fut w of (f, w1) \<Rightarrow> call p f method args w1)"

definition load_before :: "pid \<Rightarrow> oid \<Rightarrow> tid \<Rightarrow> world \<Rightarrow> future \<times> world" where
  "load_before p oid tid w =
     (case map_of (futures (protos w p)) (MsgKey oid tid) of
        Some future \<Rightarrow> (future, w)
      | None \<Rightarrow>
          (case new_future AsyncioFuture w of (future, w1) \<Rightarrow>
             (future,
              emit (Write p (Frame (MsgKey oid tid) False ''loadBefore'' [PBytes oid, PBytes tid]))
                (set_proto p (\<lambda>P. P\<lparr>futures :=
                    AList.update (MsgKey oid tid) future (futures P)\<rparr>) w1))))"

text \<open>Several callers asking for the same \<open>(oid, tid)\<close>, one after the other, with no
  reply in between: the completions they get, and the state after the last one.\<close>

fun load_before_calls :: "nat \<Rightarrow> pid \<Rightarrow> oid \<Rightarrow> tid \<Rightarrow> world \<Rightarrow> future list \<times> world" where
  "load_before_calls 0 p oid tid w = ([], w)"
| "load_before_calls (Suc n) p oid tid w =
     (case load_before p oid tid w of (f, w1) \<Rightarrow>
        (case load_before_calls n p oid tid w1 of (fs, w2) \<Rightarrow> (f # fs, w2)))"

definition frames_written :: "pid \<Rightarrow> msgid \<Rightarrow> world \<Rightarrow> nat" where
  "frames_written p m w =
     length (filter (\<lambda>e. case e of Write q (Frame m' a n args) \<Rightarrow> q = p \<and> m' = m | _ \<Rightarrow> False)
       (trace w))"

subsection \<open>Client: server-initiated invalidations\<close>

text \<open>
  \<^verbatim>\<open>
  def invalidateTransaction(self, tid, oids):
      if self.ready:
          for oid in oids:
              self.cache.invalidate(oid, tid)
          self.client.invalidateTransaction(tid, oids)
          self.cache.setLastTid(tid)
  \<close>
  \<open>ready\<close> is \<open>None\<close>, \<open>True\<close> or \<open>False\<close>; only \<open>True\<close> is truthy.
\<close>

definition invalidateTransaction :: "env \<Rightarrow> tid \<Rightarrow> oid list \<Rightarrow> unit action" where
  "invalidateTransaction env tid oids w =
     (if ready w = Some True then
        then_do (for_each oids (\<lambda>oid. ext env (CacheInvalidate oid (Some tid)))) (\<lambda>u.
        then_do (ext env (InvalidateTransaction tid oids)) (\<lambda>u.
        ext env (CacheSetLastTid tid))) w
      else (Inr (), w))"

subsection \<open>Protocol: closing\<close>

text \<open>
  The base class \<open>base.Protocol\<close> is defined in another module. From it come the
  attributes \<open>closed\<close> (\<open>False\<close> on a new object) and \<open>transport\<close> (\<open>None\<close> until the
  connection is made; here: whether it is set), and \<open>_write\<close>, whose calls are entries of
  the trace.

  \<^verbatim>\<open>
  def close(self):
      if not self.closed:
          self.closed = True
          self._connecting.cancel()
          if self.transport is not None:
              self.transport.close()
          for future in self.pop_futures():
              future.set_exception(ClientDisconnected("Closed"))

  def pop_futures(self):
      futures = list(self.futures.values())
      self.futures.clear()
      return futures
  \<close>
\<close>

text \<open>The resolution of a completion, as an entry of the trace. For a library completion
  this is the call; for a \<open>Fut\<close> it is what \<open>set_result\<close> and \<open>set_exception\<close> do before
  they call the callback. \<open>Protocol_close\<close> is \<open>close\<close> as it runs when no callback does
  anything inside it; \<open>Protocol_close_cb\<close>, further down, is \<open>close\<close> with the callbacks.\<close>

definition set_result :: "future \<Rightarrow> pyval \<Rightarrow> world \<Rightarrow> world" where
  "set_result f v w = emit (SetResult f v) w"

definition set_exception :: "future \<Rightarrow> exn \<Rightarrow> world \<Rightarrow> world" where
  "set_exception f e w = emit (SetException f e) w"

text \<open>\<open>asyncio.Future\<close> and \<open>concurrent.futures.Future\<close> have \<open>cancel\<close>; the class \<open>Fut\<close>
  of this module defines \<open>add_done_callback\<close>, \<open>set_exception\<close>, \<open>set_result\<close> and
  \<open>result\<close> only, so \<open>cancel\<close> on a \<open>Fut\<close> is an \<open>AttributeError\<close>.\<close>

definition cancel :: "future \<Rightarrow> unit action" where
  "cancel f w =
     (case f of
        Future Fut i \<Rightarrow> (Inl (AttributeError ''cancel''), w)
      | Future AsyncioFuture i \<Rightarrow> (Inr (), emit (Cancel f) w)
      | Future ConcurrentFuture i \<Rightarrow> (Inr (), emit (Cancel f) w))"

definition pop_futures :: "pid \<Rightarrow> world \<Rightarrow> future list \<times> world" where
  "pop_futures p w = (map snd (futures (protos w p)), set_proto p (\<lambda>P. P\<lparr>futures := []\<rparr>) w)"

definition Protocol_close :: "pid \<Rightarrow> world \<Rightarrow> world" where
  "Protocol_close p w =
     (if closed (protos w p) then w
      else
        (let w1 = emit (ConnectingCancel p) (set_proto p (\<lambda>P. P\<lparr>closed := True\<rparr>) w);
             w2 = (if transport (protos w1 p) then emit (TransportClose p) w1 else w1)
         in case pop_futures p w2 of (fs, w3) \<Rightarrow>
              fold (\<lambda>future. set_exception future (ClientDisconnected (StrArg ''Closed''))) fs w3))"

subsection \<open>Client: the candidate connections\<close>

text \<open>
  \<^verbatim>\<open>
  def _clear_protocols(self, protocol=None):
      for p in self.protocols:
          if p is not protocol:
              p.close()
      self.protocols = ()

  def try_connecting(self):
      logger.debug('try_connecting')
      if not self.closed:
          self.protocols = [
              Protocol(self.loop, addr, self,
                       self.storage_key, self.read_only, self.connect_poll, ...)
              for addr in self.addrs
              ]

  def disconnected(self, protocol=None):
      logger.debug('disconnected %r %r', self, protocol)
      if protocol is None or protocol is self.protocol:
          if protocol is self.protocol and protocol is not None:
              self.client.notify_disconnected()
          if self.ready:
              self.ready = False
          self.connected = concurrent.futures.Future()
          self.protocol = None
          self._clear_protocols()

      if all(p.closed for p in self.protocols):
          self.try_connecting()
  \<close>
  \<open>Protocol.__init__\<close> sets the fields and starts the connection attempt (\<open>connect\<close>):
  a new object, and one \<open>CreateConnection\<close> entry.
\<close>

definition clear_protocols :: "pid option \<Rightarrow> world \<Rightarrow> world" where
  "clear_protocols keep w =
     (fold (\<lambda>p w'. if Some p \<noteq> keep then Protocol_close p w' else w') (protocols w) w)
       \<lparr>protocols := []\<rparr>"

text \<open>Modelled from the spec: \<open>base.Protocol.__init__\<close> is defined in another module. A
  Protocol is created by the Client during connect: it is not closed, has no transport
  yet, nothing pending, and no negotiated version.\<close>

definition new_protocol :: "world \<Rightarrow> protocol" where
  "new_protocol w = \<lparr>storage_key = client_storage_key w, read_only = client_read_only w,
     closed = False, transport = False, futures = [], message_id = 0, protocol_version = None\<rparr>"

fun create_protocols :: "addr list \<Rightarrow> world \<Rightarrow> pid list \<times> world" where
  "create_protocols [] w = ([], w)"
| "create_protocols (a # as) w =
     (let p = next_pid w;
          w1 = emit (CreateConnection p a)
                 (w\<lparr>next_pid := Suc p, protos := (protos w)(p := new_protocol w)\<rparr>)
      in case create_protocols as w1 of (ps, w2) \<Rightarrow> (p # ps, w2))"

definition try_connecting :: "world \<Rightarrow> world" where
  "try_connecting w =
     (let w1 = emit (Log DEBUG ''try_connecting'' []) w
      in if \<not> client_closed w1
         then (case create_protocols (addrs w1) w1 of (ps, w2) \<Rightarrow> w2\<lparr>protocols := ps\<rparr>)
         else w1)"

definition obj_of :: "pid option \<Rightarrow> obj" where
  "obj_of pr = (case pr of None \<Rightarrow> NoneObj | Some p \<Rightarrow> ProtocolObj p)"

definition disconnected :: "env \<Rightarrow> pid option \<Rightarrow> unit action" where
  "disconnected env pr w =
     (let w0 = emit (Log DEBUG ''disconnected %r %r'' [LObj ClientObj, LObj (obj_of pr)]) w
      in then_do
           (if pr = None \<or> pr = protocol w0 then
              then_do
                (if pr = protocol w0 \<and> pr \<noteq> None then ext env NotifyDisconnected else done_ok)
                (\<lambda>u w1.
                   (let w2 = (if ready w1 = Some True then w1\<lparr>ready := Some False\<rparr> else w1)
                    in case new_future ConcurrentFuture w2 of (f, w3) \<Rightarrow>
                         (Inr (), clear_protocols None (w3\<lparr>connected := f, protocol := None\<rparr>))))
            else done_ok)
           (\<lambda>u w5.
              (Inr (), if list_all (\<lambda>q. closed (protos w5 q)) (protocols w5)
                       then try_connecting w5 else w5))
           w0)"

subsection \<open>Client: failed registration and cache verification\<close>

text \<open>
  \<^verbatim>\<open>
  def register_failed(self, protocol, exc):
      if protocol is not self:
          protocol.close()
      logger.exception("Registration or cache validation failed, %s", exc)
      if (self.protocol is None and not
          any(not p.closed for p in self.protocols)
          ):
          self.loop.call_later(
              self.register_failed_poll + local_random.random(),
              self.try_connecting)
  \<close>
\<close>

definition register_failed :: "obj \<Rightarrow> exn \<Rightarrow> unit action" where
  "register_failed ob exc w =
     (case ob of
        NoneObj \<Rightarrow> (Inl (AttributeError ''close''), w)
      | _ \<Rightarrow>
        (let w1 = (case ob of ProtocolObj p \<Rightarrow> Protocol_close p w | _ \<Rightarrow> w);
             w2 = emit (Log EXCEPTION ''Registration or cache validation failed, %s''
                          [LExc (Some exc)]) w1
         in (Inr (),
             if protocol w2 = None \<and> \<not> list_ex (\<lambda>p. \<not> closed (protos w2 p)) (protocols w2)
             then emit (CallLater Try_connecting) w2 else w2)))"

text \<open>
  \<open>verify\<close> is a generator with up to three \<open>yield\<close>s. Its local variable \<open>protocol\<close>
  (the value of \<open>self.protocol\<close> when it starts) and \<open>server_tid\<close> are parameters of
  the later pieces.
  \<^verbatim>\<open>
  @future_generator
  def verify(self, server_tid):
      protocol = self.protocol
      if server_tid is None:
          server_tid = yield protocol.fut('lastTransaction')

      try:
          cache = self.cache
          if cache:
              cache_tid = cache.getLastTid()
              if not cache_tid:
                  self.verify_result = "Non-empty cache w/o tid"
                  logger.error("Non-empty cache w/o tid -- clearing")
                  cache.clear()
                  self.client.invalidateCache()
              elif cache_tid > server_tid:
                  self.verify_result = "Cache newer than server"
                  logger.critical(
                      'Client has seen newer transactions than server!')
                  raise AssertionError("Server behind client, %r < %r, %s",
                                       server_tid, cache_tid, protocol)
              elif cache_tid == server_tid:
                  self.verify_result = "Cache up to date"
              else:
                  vdata = yield protocol.fut('getInvalidations', cache_tid)
                  if vdata:
                      self.verify_result = "quick verification"
                      server_tid, oids = vdata
                      for oid in oids:
                          cache.invalidate(oid, None)
                      self.client.invalidateTransaction(server_tid, oids)
                  else:
                      # cache is too old
                      self.verify_result = "cache too old, clearing"
                      try:
                          ZODB.event.notify(
                              ZEO.interfaces.StaleCache(self.client))
                      except Exception:
                          logger.exception("sending StaleCache event")
                      logger.critical(
                          "%s dropping stale cache",
                          getattr(self.client, '__name__', ''),
                          )
                      self.cache.clear()
                      self.client.invalidateCache()
          else:
              self.verify_result = "empty cache"

      except Exception as exc:
          del self.protocol
          self.register_failed(protocol, exc)
      else:
          self.cache.setLastTid(server_tid)
          self.ready = True

          try:
              info = yield protocol.fut('get_info')
          except Exception as exc:
              self.register_failed(self, exc)
          else:
              self.client.notify_connected(self, info)
              self.connected.set_result(None)
  \<close>
  \<open>bool(cache)\<close> and \<open>cache.getLastTid()\<close> are answers of the environment; a tid is falsy
  when it is \<open>None\<close> or the empty byte string. \<open>del self.protocol\<close> removes the instance
  attribute, after which \<open>self.protocol\<close> reads the class attribute, \<open>None\<close>.
\<close>

definition fut_on :: "pid option \<Rightarrow> string \<Rightarrow> pyval list \<Rightarrow> future action" where
  "fut_on pr method args w =
     (case pr of
        None \<Rightarrow> (Inl (AttributeError ''fut''), w)
      | Some p \<Rightarrow> (case fut p method args w of (f, w') \<Rightarrow> (Inr f, w')))"

text \<open>The \<open>else\<close> clause of the outer \<open>try\<close>, up to the \<open>yield\<close> of \<open>get_info\<close>.\<close>

definition verify_finish :: "env \<Rightarrow> pid option \<Rightarrow> tid \<Rightarrow> unit action" where
  "verify_finish env pr server_tid w =
     then_do (ext env (CacheSetLastTid server_tid))
       (\<lambda>u w1.
          (case fut_on pr ''get_info'' [] (w1\<lparr>ready := Some True\<rparr>) of
             (Inl exc, w2) \<Rightarrow> register_failed ClientObj exc w2
           | (Inr f, w2) \<Rightarrow> (Inr (), w2)))
       w"

text \<open>What follows the body of the outer \<open>try\<close>: the body raised (\<open>Inl\<close>), it is suspended
  at the \<open>yield\<close> of \<open>getInvalidations\<close> (\<open>Inr None\<close>), or it ran to its end with the
  server tid to record (\<open>Inr (Some server_tid)\<close>).\<close>

definition verify_end :: "env \<Rightarrow> pid option \<Rightarrow> (exn + tid option) \<times> world \<Rightarrow> (exn + unit) \<times> world" where
  "verify_end env pr r =
     (case r of
        (Inl exc, w) \<Rightarrow> register_failed (obj_of pr) exc (w\<lparr>protocol := None\<rparr>)
      | (Inr None, w) \<Rightarrow> (Inr (), w)
      | (Inr (Some server_tid), w) \<Rightarrow> verify_finish env pr server_tid w)"

definition clear_cache :: "env \<Rightarrow> tid \<Rightarrow> world \<Rightarrow> (exn + tid option) \<times> world" where
  "clear_cache env server_tid w =
     (case then_do (ext env CacheClear) (\<lambda>u. ext env InvalidateCache) w of
        (Inl exc, w') \<Rightarrow> (Inl exc, w')
      | (Inr u, w') \<Rightarrow> (Inr (Some server_tid), w'))"

definition verify_cache :: "env \<Rightarrow> pid option \<Rightarrow> tid \<Rightarrow> world \<Rightarrow> (exn + tid option) \<times> world" where
  "verify_cache env pr server_tid w =
     (if cache_nonempty env then
        (case cache_getLastTid env of
           None \<Rightarrow>
             clear_cache env server_tid
               (emit (Log ERROR ''Non-empty cache w/o tid -- clearing'' [])
                  (w\<lparr>verify_result := Some ''Non-empty cache w/o tid''\<rparr>))
         | Some cache_tid \<Rightarrow>
             if cache_tid = [] then
               clear_cache env server_tid
                 (emit (Log ERROR ''Non-empty cache w/o tid -- clearing'' [])
                    (w\<lparr>verify_result := Some ''Non-empty cache w/o tid''\<rparr>))
             else if cache_tid > server_tid then
               (Inl (ServerBehindClient server_tid cache_tid (obj_of pr)),
                emit (Log CRITICAL ''Client has seen newer transactions than server!'' [])
                  (w\<lparr>verify_result := Some ''Cache newer than server''\<rparr>))
             else if cache_tid = server_tid then
               (Inr (Some server_tid), w\<lparr>verify_result := Some ''Cache up to date''\<rparr>)
             else
               (case fut_on pr ''getInvalidations'' [PBytes cache_tid] w of
                  (Inl exc, w') \<Rightarrow> (Inl exc, w')
                | (Inr f, w') \<Rightarrow> (Inr None, w')))
      else (Inr (Some server_tid), w\<lparr>verify_result := Some ''empty cache''\<rparr>))"

definition verify_invalidations ::
  "env \<Rightarrow> tid \<Rightarrow> exn + (tid \<times> oid list) option \<Rightarrow> world \<Rightarrow> (exn + tid option) \<times> world" where
  "verify_invalidations env server_tid reply w =
     (case reply of
        Inl exc \<Rightarrow> (Inl exc, w)
      | Inr (Some (new_tid, oids)) \<Rightarrow>
          (case then_do (for_each oids (\<lambda>oid. ext env (CacheInvalidate oid None)))
                  (\<lambda>u. ext env (InvalidateTransaction new_tid oids))
                  (w\<lparr>verify_result := Some ''quick verification''\<rparr>) of
             (Inl exc, w') \<Rightarrow> (Inl exc, w')
           | (Inr u, w') \<Rightarrow> (Inr (Some new_tid), w'))
      | Inr None \<Rightarrow>
          (let w1 = w\<lparr>verify_result := Some ''cache too old, clearing''\<rparr>;
               w2 = (case ext env NotifyStaleCache w1 of
                       (Inl exc, w') \<Rightarrow> emit (Log EXCEPTION ''sending StaleCache event'' []) w'
                     | (Inr u, w') \<Rightarrow> w')
           in clear_cache env server_tid
                (emit (Log CRITICAL ''%s dropping stale cache'' [LClientName]) w2)))"

definition verify_body :: "env \<Rightarrow> pid option \<Rightarrow> tid \<Rightarrow> unit action" where
  "verify_body env pr server_tid w = verify_end env pr (verify_cache env pr server_tid w)"

definition verify :: "env \<Rightarrow> tid option \<Rightarrow> unit action" where
  "verify env server_tid w =
     (case server_tid of
        None \<Rightarrow>
          (case fut_on (protocol w) ''lastTransaction'' [] w of
             (Inl exc, w') \<Rightarrow> (Inl exc, w')
           | (Inr f, w') \<Rightarrow> (Inr (), w'))
      | Some t \<Rightarrow> verify_body env (protocol w) t w)"

text \<open>The pieces that run when the completion yielded last is resolved: with the reply
  (\<open>Inr\<close>) or with an exception (\<open>Inl\<close>). The first \<open>yield\<close> stands outside the \<open>try\<close>.\<close>

definition verify_lastTransaction_reply :: "env \<Rightarrow> pid option \<Rightarrow> exn + tid \<Rightarrow> unit action" where
  "verify_lastTransaction_reply env pr reply w =
     (case reply of Inl exc \<Rightarrow> (Inl exc, w) | Inr t \<Rightarrow> verify_body env pr t w)"

definition verify_getInvalidations_reply ::
  "env \<Rightarrow> pid option \<Rightarrow> tid \<Rightarrow> exn + (tid \<times> oid list) option \<Rightarrow> unit action" where
  "verify_getInvalidations_reply env pr server_tid reply w =
     verify_end env pr (verify_invalidations env server_tid reply w)"


subsection \<open>Fut: callbacks that run inside the resolving call\<close>

text \<open>
  \<^verbatim>\<open>
  class Fut(object):
      def add_done_callback(self, cb):
          self.cb = cb

      exc = None
      def set_exception(self, exc):
          self.exc = exc
          self.cb(self)

      def set_result(self, result):
          self._result = result
          self.cb(self)

  def future_generator(func):
      def call_generator(*args, **kw):
          gen = func(*args, **kw)
          try:
              f = next(gen)
          except StopIteration:
              gen.close()
          else:
              def store(gen, future):
                  @future.add_done_callback
                  def _(future):
                      try:
                          try:
                              result = future.result()
                          except Exception as exc:
                              f = gen.throw(exc)
                          else:
                              f = gen.send(result)
                      except StopIteration:
                          gen.close()
                      else:
                          store(gen, f)

              store(gen, f)

      return call_generator
  \<close>
  A \<open>Fut\<close> calls its callback inside \<open>set_exception\<close> and \<open>set_result\<close>, and the callback
  that \<open>future_generator\<close> registers resumes the generator that yielded the \<open>Fut\<close>. It
  catches \<open>StopIteration\<close> only: whatever else the generator raises leaves the callback,
  and with it the call that resolved the \<open>Fut\<close>; and whatever the generator does to the
  Client is done before that call goes on.

  The callbacks are the parameter \<open>cb\<close> of the operations below: \<open>cb f outcome\<close> is the
  run of the callback of \<open>f\<close> when \<open>f\<close> is resolved with a value (\<open>Inr\<close>) or an exception
  (\<open>Inl\<close>). The library completions are resolved by a call on a library object, an
  entry of the trace: \<open>asyncio.Future\<close> defers its callbacks to the event loop, and
  \<open>concurrent.futures.Future\<close> keeps what a callback raises to itself.
\<close>

type_synonym callbacks = "future \<Rightarrow> exn + pyval \<Rightarrow> unit action"

definition Fut_set_exception :: "callbacks \<Rightarrow> future \<Rightarrow> exn \<Rightarrow> unit action" where
  "Fut_set_exception cb f exc w = cb f (Inl exc) (set_exception f exc w)"

definition Fut_set_result :: "callbacks \<Rightarrow> future \<Rightarrow> pyval \<Rightarrow> unit action" where
  "Fut_set_result cb f v w = cb f (Inr v) (set_result f v w)"

text \<open>The calls \<open>future.set_exception(exc)\<close> and \<open>future.set_result(v)\<close>, by the class of
  the completion.\<close>

definition future_set_exception :: "callbacks \<Rightarrow> future \<Rightarrow> exn \<Rightarrow> unit action" where
  "future_set_exception cb f exc w =
     (case f of
        Future Fut i \<Rightarrow> Fut_set_exception cb f exc w
      | Future AsyncioFuture i \<Rightarrow> (Inr (), set_exception f exc w)
      | Future ConcurrentFuture i \<Rightarrow> (Inr (), set_exception f exc w))"

definition future_set_result :: "callbacks \<Rightarrow> future \<Rightarrow> pyval \<Rightarrow> unit action" where
  "future_set_result cb f v w =
     (case f of
        Future Fut i \<Rightarrow> Fut_set_result cb f v w
      | Future AsyncioFuture i \<Rightarrow> (Inr (), set_result f v w)
      | Future ConcurrentFuture i \<Rightarrow> (Inr (), set_result f v w))"

text \<open>
  \<open>Protocol.close\<close>, \<open>Client._clear_protocols\<close>, \<open>Client.disconnected\<close> and
  \<open>Client.register_failed\<close> (listed above) with the callbacks: an exception that leaves
  a callback ends the loop it is raised in and everything after it.
\<close>

definition Protocol_close_cb :: "callbacks \<Rightarrow> pid \<Rightarrow> unit action" where
  "Protocol_close_cb cb p w =
     (if closed (protos w p) then (Inr (), w)
      else
        (let w1 = emit (ConnectingCancel p) (set_proto p (\<lambda>P. P\<lparr>closed := True\<rparr>) w);
             w2 = (if transport (protos w1 p) then emit (TransportClose p) w1 else w1)
         in case pop_futures p w2 of (fs, w3) \<Rightarrow>
              for_each fs
                (\<lambda>future. future_set_exception cb future (ClientDisconnected (StrArg ''Closed'')))
                w3))"

definition clear_protocols_cb :: "callbacks \<Rightarrow> pid option \<Rightarrow> unit action" where
  "clear_protocols_cb cb keep w =
     then_do
       (for_each (protocols w) (\<lambda>p. if Some p \<noteq> keep then Protocol_close_cb cb p else done_ok))
       (\<lambda>u w'. (Inr (), w'\<lparr>protocols := []\<rparr>))
       w"

definition disconnected_cb :: "callbacks \<Rightarrow> env \<Rightarrow> pid option \<Rightarrow> unit action" where
  "disconnected_cb cb env pr w =
     (let w0 = emit (Log DEBUG ''disconnected %r %r'' [LObj ClientObj, LObj (obj_of pr)]) w
      in then_do
           (if pr = None \<or> pr = protocol w0 then
              then_do
                (if pr = protocol w0 \<and> pr \<noteq> None then ext env NotifyDisconnected else done_ok)
                (\<lambda>u w1.
                   (let w2 = (if ready w1 = Some True then w1\<lparr>ready := Some False\<rparr> else w1)
                    in case new_future ConcurrentFuture w2 of (f, w3) \<Rightarrow>
                         clear_protocols_cb cb None (w3\<lparr>connected := f, protocol := None\<rparr>)))
            else done_ok)
           (\<lambda>u w5.
              (Inr (), if list_all (\<lambda>q. closed (protos w5 q)) (protocols w5)
                       then try_connecting w5 else w5))
           w0)"

definition register_failed_cb :: "callbacks \<Rightarrow> obj \<Rightarrow> exn \<Rightarrow> unit action" where
  "register_failed_cb cb ob exc w =
     (case ob of
        NoneObj \<Rightarrow> (Inl (AttributeError ''close''), w)
      | _ \<Rightarrow>
        then_do (case ob of ProtocolObj p \<Rightarrow> Protocol_close_cb cb p | _ \<Rightarrow> done_ok)
          (\<lambda>u w1.
             (let w2 = emit (Log EXCEPTION ''Registration or cache validation failed, %s''
                               [LExc (Some exc)]) w1
              in (Inr (),
                  if protocol w2 = None \<and> \<not> list_ex (\<lambda>p. \<not> closed (protos w2 p)) (protocols w2)
                  then emit (CallLater Try_connecting) w2 else w2)))
          w)"

text \<open>
  \<^verbatim>\<open>
  def connection_lost(self, exc):
      logger.debug('connection_lost %r', exc)
      self.heartbeat_handle.cancel()
      if self.closed:
          for f in self.pop_futures():
              f.cancel()
      else:
          # We have to be careful processing the futures, because
          # exception callbacks might modufy them.
          for f in self.pop_futures():
              f.set_exception(ClientDisconnected(exc or 'connection lost'))
          self.closed = True
          self.client.disconnected(self)
  \<close>
\<close>

definition connection_lost :: "callbacks \<Rightarrow> env \<Rightarrow> pid \<Rightarrow> exn option \<Rightarrow> unit action" where
  "connection_lost cb env p exc w =
     (let w1 = emit (HeartbeatCancel p) (emit (Log DEBUG ''connection_lost %r'' [LExc exc]) w)
      in if closed (protos w1 p) then
           (case pop_futures p w1 of (fs, w2) \<Rightarrow> for_each fs cancel w2)
         else
           (case pop_futures p w1 of (fs, w2) \<Rightarrow>
              then_do
                (for_each fs
                   (\<lambda>f. future_set_exception cb f
                           (ClientDisconnected
                              (case exc of None \<Rightarrow> StrArg ''connection lost''
                               | Some e \<Rightarrow> ExnArg e))))
                (\<lambda>u w3. disconnected_cb cb env (Some p) (set_proto p (\<lambda>P. P\<lparr>closed := True\<rparr>) w3))
                w2))"

text \<open>The pieces of \<open>verify\<close> (listed above) that can close a Protocol, with the
  callbacks.\<close>

definition verify_end_cb ::
  "callbacks \<Rightarrow> env \<Rightarrow> pid option \<Rightarrow> (exn + tid option) \<times> world \<Rightarrow> (exn + unit) \<times> world" where
  "verify_end_cb cb env pr r =
     (case r of
        (Inl exc, w) \<Rightarrow> register_failed_cb cb (obj_of pr) exc (w\<lparr>protocol := None\<rparr>)
      | (Inr None, w) \<Rightarrow> (Inr (), w)
      | (Inr (Some server_tid), w) \<Rightarrow> verify_finish env pr server_tid w)"

definition verify_body_cb :: "callbacks \<Rightarrow> env \<Rightarrow> pid option \<Rightarrow> tid \<Rightarrow> unit action" where
  "verify_body_cb cb env pr server_tid w =
     verify_end_cb cb env pr (verify_cache env pr server_tid w)"

definition verify_cb :: "callbacks \<Rightarrow> env \<Rightarrow> tid option \<Rightarrow> unit action" where
  "verify_cb cb env server_tid w =
     (case server_tid of
        None \<Rightarrow>
          (case fut_on (protocol w) ''lastTransaction'' [] w of
             (Inl exc, w') \<Rightarrow> (Inl exc, w')
           | (Inr f, w') \<Rightarrow> (Inr (), w'))
      | Some t \<Rightarrow> verify_body_cb cb env (protocol w) t w)"

definition verify_lastTransaction_reply_cb ::
  "callbacks \<Rightarrow> env \<Rightarrow> pid option \<Rightarrow> exn + tid \<Rightarrow> unit action" where
  "verify_lastTransaction_reply_cb cb env pr reply w =
     (case reply of Inl exc \<Rightarrow> (Inl exc, w) | Inr t \<Rightarrow> verify_body_cb cb env pr t w)"

text \<open>
  \<^verbatim>\<open>
  def upgrade(self, protocol):
      self.ready = False
      self.connected = concurrent.futures.Future()
      self.protocol.close()
      self.protocol = protocol
      self._clear_protocols(protocol)

  def registered(self, protocol, server_tid):
      if self.protocol is None:
          self.protocol = protocol
          if not (self.read_only is Fallback and protocol.read_only):
              # We're happy with this protocol. Tell the others to
              # stop trying.
              self._clear_protocols(protocol)
          self.verify(server_tid)
      elif (self.read_only is Fallback and not protocol.read_only and
            self.protocol.read_only):
          self.upgrade(protocol)
          self.verify(server_tid)
      else:
          protocol.close() # too late, we went home with another
  \<close>
\<close>

definition upgrade :: "callbacks \<Rightarrow> pid \<Rightarrow> unit action" where
  "upgrade cb p w =
     (case new_future ConcurrentFuture (w\<lparr>ready := Some False\<rparr>) of (f, w1) \<Rightarrow>
        (let w2 = w1\<lparr>connected := f\<rparr>
         in case protocol w2 of
              None \<Rightarrow> (Inl (AttributeError ''close''), w2)
            | Some cur \<Rightarrow>
                then_do (Protocol_close_cb cb cur)
                  (\<lambda>u w3. clear_protocols_cb cb (Some p) (w3\<lparr>protocol := Some p\<rparr>))
                  w2))"

definition registered :: "callbacks \<Rightarrow> env \<Rightarrow> pid \<Rightarrow> tid option \<Rightarrow> unit action" where
  "registered cb env p server_tid w =
     (case protocol w of
        None \<Rightarrow>
          then_do
            (if \<not> (client_read_only w = Fallback \<and> ro_truthy (read_only (protos w p)))
             then clear_protocols_cb cb (Some p) else done_ok)
            (\<lambda>u. verify_cb cb env server_tid)
            (w\<lparr>protocol := Some p\<rparr>)
      | Some cur \<Rightarrow>
          if client_read_only w = Fallback \<and> \<not> ro_truthy (read_only (protos w p)) \<and>
             ro_truthy (read_only (protos w cur))
          then then_do (upgrade cb p) (\<lambda>u. verify_cb cb env server_tid) w
          else Protocol_close_cb cb p w)"

subsection \<open>Protocol: handshake and registration\<close>

text \<open>
  \<^verbatim>\<open>
  protocols = b'Z309', b'Z310', b'Z3101', b'Z4', b'Z5'

  @future_generator
  def finish_connect(self, protocol_version):
      self.protocol_version = min(protocol_version, self.protocols[-1])

      if self.protocol_version not in self.protocols:
          self.client.register_failed(
              self, ZEO.Exceptions.ProtocolError(protocol_version))
          return

      self._write(self.protocol_version)

      try:
          try:
              server_tid = yield self.fut(
                  'register', self.storage_key,
                  self.read_only if self.read_only is not Fallback else False,
                  )
          except ZODB.POSException.ReadOnlyError:
              if self.read_only is Fallback:
                  self.read_only = True
                  server_tid = yield self.fut(
                      'register', self.storage_key, True)
              else:
                  raise
          else:
              if self.read_only is Fallback:
                  self.read_only = False
      except Exception as exc:
          self.client.register_failed(self, exc)
      else:
          self.client.registered(self, server_tid)
  \<close>
\<close>

definition Protocol_protocols :: "bytes list" where
  "Protocol_protocols = [''Z309'', ''Z310'', ''Z3101'', ''Z4'', ''Z5'']"

definition register_args :: "protocol \<Rightarrow> pyval list" where
  "register_args P =
     [PStr (storage_key P), PBool (case read_only P of Fallback \<Rightarrow> False | RO b \<Rightarrow> b)]"

definition finish_connect :: "pid \<Rightarrow> bytes \<Rightarrow> unit action" where
  "finish_connect p version w =
     (let v = min version (last Protocol_protocols);
          w1 = set_proto p (\<lambda>P. P\<lparr>protocol_version := Some v\<rparr>) w
      in if v \<notin> set Protocol_protocols
         then register_failed (ProtocolObj p) (ProtocolError version) w1
         else (case fut p ''register'' (register_args (protos w1 p))
                      (emit (Write p (Handshake v)) w1) of
                 (f, w2) \<Rightarrow> (Inr (), w2)))"

definition is_ReadOnlyError :: "exn \<Rightarrow> bool" where
  "is_ReadOnlyError exc =
     (case exc of
        Raised (PInstance c args) \<Rightarrow> issubclass c [''ReadOnlyError'']
      | _ \<Rightarrow> False)"

definition finish_connect_register_reply ::
  "callbacks \<Rightarrow> env \<Rightarrow> pid \<Rightarrow> exn + tid option \<Rightarrow> unit action" where
  "finish_connect_register_reply cb env p reply w =
     (case reply of
        Inr server_tid \<Rightarrow>
          registered cb env p server_tid
            (if read_only (protos w p) = Fallback
             then set_proto p (\<lambda>P. P\<lparr>read_only := RO False\<rparr>) w else w)
      | Inl exc \<Rightarrow>
          if is_ReadOnlyError exc \<and> read_only (protos w p) = Fallback then
            (case fut p ''register'' [PStr (storage_key (protos w p)), PBool True]
                    (set_proto p (\<lambda>P. P\<lparr>read_only := RO True\<rparr>) w) of
               (f, w1) \<Rightarrow> (Inr (), w1))
          else register_failed_cb cb (ProtocolObj p) exc w)"

definition finish_connect_retry_reply ::
  "callbacks \<Rightarrow> env \<Rightarrow> pid \<Rightarrow> exn + tid option \<Rightarrow> unit action" where
  "finish_connect_retry_reply cb env p reply w =
     (case reply of
        Inr server_tid \<Rightarrow> registered cb env p server_tid w
      | Inl exc \<Rightarrow> register_failed_cb cb (ProtocolObj p) exc w)"

subsection \<open>Client: commits, conflicts, closing\<close>

text \<open>
  \<^verbatim>\<open>
  @future_generator
  def tpc_finish_threadsafe(self, future, tid, updates, f):
      if self.ready:
          try:
              tid = yield self.protocol.fut('tpc_finish', tid)
              cache = self.cache
              for oid, data, resolved in updates:
                  cache.invalidate(oid, tid)
                  if data and not resolved:
                      cache.store(oid, tid, None, data)
              cache.setLastTid(tid)
          except Exception as exc:
              future.set_exception(exc)

              # At this point, our cache is in an inconsistent
              # state.  We need to reconnect in hopes of
              # recovering to a consistent state.
              self.protocol.close()
              self.disconnected(self.protocol)
          else:
              f(tid)
              future.set_result(tid)
      else:
          future.set_exception(ClientDisconnected())
  \<close>
  An update is \<open>(oid, data, resolved)\<close>; \<open>data\<close> is \<open>None\<close> or a byte string, truthy when
  it is a non-empty byte string. The callback \<open>f\<close> belongs to the caller: its call is the
  trace entry \<open>OnCommit\<close>.
\<close>

type_synonym update = "oid \<times> bytes option \<times> bool"





text \<open>
  \<^verbatim>\<open>
  def serialnos(self, serials):
      for oid, serial in serials:
          if isinstance(serial, Exception):
              self.cache.invalidate(oid, None)

      self.client.serialnos(serials)

  def close(self):
      if not self.closed:
          self.closed = True
          self.ready = False
          if self.protocol is not None:
              self.protocol.close()
          self.cache.close()
          self._clear_protocols()

  def close_threadsafe(self, future):
      self.close()
      future.set_result(None)
  \<close>
\<close>

definition is_exception_instance :: "pyval \<Rightarrow> bool" where
  "is_exception_instance v =
     (case v of PInstance c args \<Rightarrow> issubclass c [''Exception''] | _ \<Rightarrow> False)"

definition serialnos :: "env \<Rightarrow> (oid \<times> pyval) list \<Rightarrow> unit action" where
  "serialnos env serials w =
     then_do
       (for_each serials
          (\<lambda>(oid, serial). if is_exception_instance serial
                            then ext env (CacheInvalidate oid None) else done_ok))
       (\<lambda>u. ext env (Serialnos serials)) w"

definition Client_close :: "env \<Rightarrow> unit action" where
  "Client_close env w =
     (if \<not> client_closed w then
        (let w1 = w\<lparr>client_closed := True, ready := Some False\<rparr>;
             w2 = (case protocol w1 of None \<Rightarrow> w1 | Some p \<Rightarrow> Protocol_close p w1)
         in then_do (ext env CacheClose) (\<lambda>u w3. (Inr (), clear_protocols None w3)) w2)
      else (Inr (), w))"

definition close_threadsafe :: "env \<Rightarrow> future \<Rightarrow> unit action" where
  "close_threadsafe env future w =
     then_do (Client_close env) (\<lambda>u w1. (Inr (), set_result future PNone w1)) w"

subsection \<open>Protocol: reply dispatch\<close>

text \<open>
  \<^verbatim>\<open>
  exception_type_type = type(Exception)
  def message_received(self, data):
      msgid, async, name, args = decode(data)
      if name == '.reply':
          future = self.futures.pop(msgid)
          if (isinstance(args, tuple) and len(args) > 1 and
              type(args[0]) == self.exception_type_type and
              issubclass(args[0], Exception)
              ):
              if not issubclass(
                  args[0], (
                      ZODB.POSException.POSKeyError,
                      ZODB.POSException.ConflictError,)
                  ):
                  logger.error("%s from server: %s.%s:%s",
                               self.name,
                               args[0].__module__,
                               args[0].__name__,
                               args[1])
              future.set_exception(args[1])
          else:
              future.set_result(args)
      else:
          assert async # clients only get async calls
          if name in self.client_methods:
              getattr(self.client, name)(*args)
          else:
              raise AttributeError(name)

  client_methods = (
      'invalidateTransaction', 'serialnos', 'info',
      'receiveBlobStart', 'receiveBlobChunk', 'receiveBlobStop',
      )
  client_delegated = client_methods[2:]
  \<close>
  The frame is taken decoded (\<open>decode\<close> is the codec's). The methods of
  \<open>client_delegated\<close> are the application's own, bound on the Client by \<open>__init__\<close>.
  A server call whose arguments do not have the shape the method takes is a \<open>TypeError\<close>.
\<close>

definition is_exception_class :: "pyval \<Rightarrow> bool" where
  "is_exception_class v =
     (case v of PClass c \<Rightarrow> metaclass_is_type c \<and> issubclass c [''Exception''] | _ \<Rightarrow> False)"

definition is_exception_reply :: "pyval \<Rightarrow> bool" where
  "is_exception_reply args =
     (case args of PTuple xs \<Rightarrow> length xs > 1 \<and> is_exception_class (xs ! 0) | _ \<Rightarrow> False)"

definition is_known_data_error :: "pyval \<Rightarrow> bool" where
  "is_known_data_error v =
     (case v of PClass c \<Rightarrow> issubclass c [''POSKeyError'', ''ConflictError''] | _ \<Rightarrow> False)"

definition tuple_item :: "pyval \<Rightarrow> nat \<Rightarrow> pyval" where
  "tuple_item args i = (case args of PTuple xs \<Rightarrow> xs ! i | _ \<Rightarrow> PNone)"

definition class_text :: "pyval \<Rightarrow> logarg list" where
  "class_text v =
     (case v of PClass c \<Rightarrow> [LText (class_module c), LText (class_name c)] | _ \<Rightarrow> [])"

definition client_methods :: "string list" where
  "client_methods = [''invalidateTransaction'', ''serialnos'', ''info'',
     ''receiveBlobStart'', ''receiveBlobChunk'', ''receiveBlobStop'']"

definition client_delegated :: "string list" where
  "client_delegated = drop 2 client_methods"

fun as_bytes :: "pyval \<Rightarrow> bytes option" where
  "as_bytes (PBytes b) = Some b"
| "as_bytes v = None"

fun as_bytes_list :: "pyval \<Rightarrow> bytes list option" where
  "as_bytes_list (PList xs) = those (map as_bytes xs)"
| "as_bytes_list (PTuple xs) = those (map as_bytes xs)"
| "as_bytes_list v = None"

fun as_serial :: "pyval \<Rightarrow> (oid \<times> pyval) option" where
  "as_serial (PTuple [PBytes oid, serial]) = Some (oid, serial)"
| "as_serial v = None"

fun as_serials :: "pyval \<Rightarrow> (oid \<times> pyval) list option" where
  "as_serials (PList xs) = those (map as_serial xs)"
| "as_serials (PTuple xs) = those (map as_serial xs)"
| "as_serials v = None"

definition client_method :: "env \<Rightarrow> string \<Rightarrow> pyval \<Rightarrow> unit action" where
  "client_method env name args w =
     (if name = ''invalidateTransaction'' then
        (case args of
           PTuple [PBytes tid, oids] \<Rightarrow>
             (case as_bytes_list oids of
                Some os \<Rightarrow> invalidateTransaction env tid os w
              | None \<Rightarrow> (Inl TypeError, w))
         | _ \<Rightarrow> (Inl TypeError, w))
      else if name = ''serialnos'' then
        (case args of
           PTuple [serials] \<Rightarrow>
             (case as_serials serials of
                Some ss \<Rightarrow> serialnos env ss w
              | None \<Rightarrow> (Inl TypeError, w))
         | _ \<Rightarrow> (Inl TypeError, w))
      else ext env (Delegated name args) w)"

definition message_received ::
  "callbacks \<Rightarrow> env \<Rightarrow> pid \<Rightarrow> msgid \<times> bool \<times> string \<times> pyval \<Rightarrow> unit action" where
  "message_received cb env p data w =
     (case data of (msgid, async, name, args) \<Rightarrow>
        if name = ''.reply'' then
          (case map_of (futures (protos w p)) msgid of
             None \<Rightarrow> (Inl (KeyError msgid), w)
           | Some future \<Rightarrow>
               (let w1 = set_proto p (\<lambda>P. P\<lparr>futures := AList.delete msgid (futures P)\<rparr>) w
                in if is_exception_reply args then
                     future_set_exception cb future (Raised (tuple_item args 1))
                       (if \<not> is_known_data_error (tuple_item args 0)
                        then emit (Log ERROR ''%s from server: %s.%s:%s''
                                     (LObj (ProtocolObj p) # class_text (tuple_item args 0) @
                                      [LVal (tuple_item args 1)])) w1
                        else w1)
                   else future_set_result cb future args w1))
        else if \<not> async then (Inl AssertionError, w)
        else if name \<in> set client_methods then client_method env name args w
        else (Inl (AttributeError name), w))"

subsection \<open>ClientRunner: the blocking call surface\<close>

text \<open>
  \<^verbatim>\<open>
  def setup_delegation(self, loop):
      ...
      def call(meth, *args, **kw):
          timeout = kw.pop('timeout', None)
          assert not kw
          result = Future()
          call_soon_threadsafe(meth, result, *args)
          return self.wait_for_result(result, timeout)

      self.__call = call

  def wait_for_result(self, future, timeout):
      try:
          return future.result(self.timeout if timeout is None else timeout)
      except concurrent.futures.TimeoutError:
          if not self.client.ready:
              raise ClientDisconnected("timed out waiting for connection")
          else:
              raise

  def call(self, method, *args, **kw):
      return self.__call(self.call_threadsafe, method, args, **kw)
  def async(self, method, *args):
      return self.__call(self.call_async_threadsafe, method, args)
  def async_iter(self, it):
      return self.__call(self.client.call_async_iter_threadsafe, it)
  def prefetch(self, oids, tid):
      return self.__call(self.client.prefetch, oids, tid)
  def load_before(self, oid, tid):
      return self.__call(self.client.load_before_threadsafe, oid, tid)
  def tpc_finish(self, tid, updates, f):
      return self.__call(self.client.tpc_finish_threadsafe, tid, updates, f)
  def new_addrs(self, addrs):
      self.__call(self.apply_threadsafe, self.client.new_addrs, addrs)

  def close(self):
      self.__call(self.client.close_threadsafe)

      # Short circuit from now on. We're closed.
      def call_closed(*a, **k):
          raise ClientDisconnected('closed')

      self.__call = call_closed
  \<close>
  The caller's thread blocks in \<open>future.result(timeout)\<close>. What that call does (it returns
  the value, raises the completion's exception, or raises \<open>TimeoutError\<close> when the time
  is up) and what \<open>self.client.ready\<close> holds when it is read afterwards depend on the
  I/O thread: both are given by the environment \<open>renv\<close>. The runner's own state is the
  closure bound to \<open>self.__call\<close> and what it has handed to \<open>call_soon_threadsafe\<close>.
\<close>

datatype meth =
    M_call_threadsafe
  | M_call_async_threadsafe
  | M_call_async_iter_threadsafe
  | M_prefetch
  | M_load_before_threadsafe
  | M_tpc_finish_threadsafe
  | M_close_threadsafe
  | M_apply_threadsafe

datatype dunder_call = Call_open | Call_closed

record runner =
  timeout :: nat
  runner_call :: dunder_call
  scheduled :: "(meth \<times> future \<times> pyval list) list"
  runner_next_fid :: fid

record renv =
  future_result :: "future \<Rightarrow> nat \<Rightarrow> exn + pyval"
  client_ready :: "bool option"

definition wait_for_result :: "renv \<Rightarrow> runner \<Rightarrow> future \<Rightarrow> nat option \<Rightarrow> exn + pyval" where
  "wait_for_result re r future tmo =
     (case future_result re future (case tmo of None \<Rightarrow> timeout r | Some t \<Rightarrow> t) of
        Inl TimeoutError \<Rightarrow>
          if client_ready re \<noteq> Some True
          then Inl (ClientDisconnected (StrArg ''timed out waiting for connection''))
          else Inl TimeoutError
      | other \<Rightarrow> other)"

definition call_open :: "renv \<Rightarrow> meth \<Rightarrow> pyval list \<Rightarrow> nat option \<Rightarrow> runner \<Rightarrow> (exn + pyval) \<times> runner" where
  "call_open re m args tmo r =
     (let result = Future ConcurrentFuture (runner_next_fid r);
          r1 = r\<lparr>runner_next_fid := Suc (runner_next_fid r),
                 scheduled := scheduled r @ [(m, result, args)]\<rparr>
      in (wait_for_result re r1 result tmo, r1))"

definition dunder_call :: "renv \<Rightarrow> meth \<Rightarrow> pyval list \<Rightarrow> nat option \<Rightarrow> runner \<Rightarrow> (exn + pyval) \<times> runner" where
  "dunder_call re m args tmo r =
     (case runner_call r of
        Call_open \<Rightarrow> call_open re m args tmo r
      | Call_closed \<Rightarrow> (Inl (ClientDisconnected (StrArg ''closed'')), r))"

definition ClientRunner_call ::
  "renv \<Rightarrow> string \<Rightarrow> pyval list \<Rightarrow> nat option \<Rightarrow> runner \<Rightarrow> (exn + pyval) \<times> runner" where
  "ClientRunner_call re method args tmo r =
     dunder_call re M_call_threadsafe [PStr method, PTuple args] tmo r"

definition ClientRunner_async ::
  "renv \<Rightarrow> string \<Rightarrow> pyval list \<Rightarrow> runner \<Rightarrow> (exn + pyval) \<times> runner" where
  "ClientRunner_async re method args r =
     dunder_call re M_call_async_threadsafe [PStr method, PTuple args] None r"

definition ClientRunner_async_iter :: "renv \<Rightarrow> pyval \<Rightarrow> runner \<Rightarrow> (exn + pyval) \<times> runner" where
  "ClientRunner_async_iter re it r = dunder_call re M_call_async_iter_threadsafe [it] None r"

definition ClientRunner_prefetch :: "renv \<Rightarrow> pyval \<Rightarrow> pyval \<Rightarrow> runner \<Rightarrow> (exn + pyval) \<times> runner" where
  "ClientRunner_prefetch re oids tid r = dunder_call re M_prefetch [oids, tid] None r"

definition ClientRunner_load_before :: "renv \<Rightarrow> pyval \<Rightarrow> pyval \<Rightarrow> runner \<Rightarrow> (exn + pyval) \<times> runner" where
  "ClientRunner_load_before re oid tid r = dunder_call re M_load_before_threadsafe [oid, tid] None r"

definition ClientRunner_tpc_finish ::
  "renv \<Rightarrow> pyval \<Rightarrow> pyval \<Rightarrow> pyval \<Rightarrow> runner \<Rightarrow> (exn + pyval) \<times> runner" where
  "ClientRunner_tpc_finish re tid updates f r =
     dunder_call re M_tpc_finish_threadsafe [tid, updates, f] None r"

definition ClientRunner_new_addrs :: "renv \<Rightarrow> pyval \<Rightarrow> runner \<Rightarrow> (exn + unit) \<times> runner" where
  "ClientRunner_new_addrs re new r =
     (case dunder_call re M_apply_threadsafe [PStr ''new_addrs'', new] None r of
        (Inl exc, r1) \<Rightarrow> (Inl exc, r1)
      | (Inr v, r1) \<Rightarrow> (Inr (), r1))"

definition ClientRunner_close :: "renv \<Rightarrow> runner \<Rightarrow> (exn + unit) \<times> runner" where
  "ClientRunner_close re r =
     (case dunder_call re M_close_threadsafe [] None r of
        (Inl exc, r1) \<Rightarrow> (Inl exc, r1)
      | (Inr v, r1) \<Rightarrow> (Inr (), r1\<lparr>runner_call := Call_closed\<rparr>))"

subsection \<open>Observations on the trace\<close>

text \<open>The frames written to transports, in order; and what \<open>Protocol.close\<close> appends to
  the trace of a Protocol that was open.\<close>

fun written :: "event list \<Rightarrow> (pid \<times> frame) list" where
  "written [] = []"
| "written (Write q fr # es) = (q, fr) # written es"
| "written (e # es) = written es"

definition close_events :: "pid \<Rightarrow> protocol \<Rightarrow> event list" where
  "close_events p P =
     ConnectingCancel p # (if transport P then [TransportClose p] else []) @
     map (\<lambda>f. SetException f (ClientDisconnected (StrArg ''Closed''))) (map snd (futures P))"

text \<open>The state after \<open>self.futures.pop(msgid)\<close>.\<close>

definition popped :: "pid \<Rightarrow> msgid \<Rightarrow> world \<Rightarrow> world" where
  "popped p msgid w = set_proto p (\<lambda>P. P\<lparr>futures := AList.delete msgid (futures P)\<rparr>) w"






fun last_tids :: "event list \<Rightarrow> tid list" where
  "last_tids [] = []"
| "last_tids (CacheSetLastTid t # es) = t # last_tids es"
| "last_tids (e # es) = last_tids es"

text \<open>The completions of class \<open>Fut\<close>.\<close>

fun is_Fut :: "future \<Rightarrow> bool" where
  "is_Fut (Future Fut i) = True"
| "is_Fut (Future k i) = False"

subsection \<open>Example states\<close>

definition protocol0 :: protocol where
  "protocol0 = \<lparr>storage_key = ''1'', read_only = RO False, closed = False, transport = True,
     futures = [], message_id = 0, protocol_version = None\<rparr>"

definition world0 :: world where
  "world0 = \<lparr>addrs = [TcpAddr ''localhost'' 8100], client_storage_key = ''1'',
     client_read_only = RO False, client_closed = False, protocol = Some 0, protocols = [0],
     ready = Some True, connected = Future ConcurrentFuture 0, verify_result = None,
     protos = (\<lambda>p. protocol0), next_pid = 1, next_fid = 1, trace = []\<rparr>"

definition env0 :: env where
  "env0 = \<lparr>cache_nonempty = False, cache_getLastTid = None, fault = (\<lambda>e. None)\<rparr>"

definition world1 :: world where
  "world1 = world0\<lparr>protos := (\<lambda>p. protocol0\<lparr>message_id := 1,
     futures := [(MsgNum 1, Future ConcurrentFuture 3), (MsgKey ''x'' ''t7'', Future AsyncioFuture 5)]\<rparr>)\<rparr>"

definition StorageError :: pyclass where
  "StorageError = PyClass ''ZODB.POSException'' ''StorageError''
       [''StorageError'', ''POSError'', ''Exception''] True"

definition POSKeyError :: pyclass where
  "POSKeyError =
     PyClass ''ZODB.POSException'' ''POSKeyError''
       [''POSKeyError'', ''POSError'', ''KeyError'', ''Exception''] True"

definition runner0 :: runner where
  "runner0 = \<lparr>timeout = 30, runner_call = Call_open, scheduled = [], runner_next_fid = 0\<rparr>"

definition renv_timeout :: renv where
  "renv_timeout = \<lparr>future_result = (\<lambda>f t. Inl TimeoutError), client_ready = Some False\<rparr>"

definition renv_ok :: renv where
  "renv_ok = \<lparr>future_result = (\<lambda>f t. Inr PNone), client_ready = Some True\<rparr>"

text \<open>A Client with the Fallback preference: connected read-only through Protocol 0,
  with Protocol 1 (writable) and Protocol 2 still candidates.\<close>

definition world3 :: world where
  "world3 = world0\<lparr>client_read_only := Fallback, protocols := [0, 1, 2], next_pid := 3,
     protos := (\<lambda>p. if p = 0 then protocol0\<lparr>read_only := RO True\<rparr>
                     else if p = 1 then protocol0\<lparr>read_only := RO False\<rparr>
                     else protocol0\<lparr>read_only := Fallback\<rparr>)\<rparr>"



definition world4 :: world where
  "world4 = world0\<lparr>ready := Some False\<rparr>"

definition env_cache :: "tid option \<Rightarrow> env" where
  "env_cache c = \<lparr>cache_nonempty = True, cache_getLastTid = c, fault = (\<lambda>e. None)\<rparr>"

text \<open>
  Callbacks that do nothing; and the callbacks while \<open>verify\<close> is suspended at its first
  \<open>yield\<close> (\<open>server_tid = yield protocol.fut('lastTransaction')\<close>, outside the \<open>try\<close>)
  on the completion \<open>f\<close>: the callback of \<open>f\<close> resumes \<open>verify\<close> with the outcome, the
  other completions have the callbacks \<open>cb\<close>. The server answers \<open>lastTransaction\<close> with
  a tid, a byte string; as for the server's calls, another value is a \<open>TypeError\<close>.
\<close>

definition no_callbacks :: callbacks where
  "no_callbacks f outcome = done_ok"

definition verify_suspended :: "callbacks \<Rightarrow> env \<Rightarrow> pid option \<Rightarrow> future \<Rightarrow> callbacks" where
  "verify_suspended cb env pr f g outcome w =
     (if g = f then
        (case outcome of
           Inl exc \<Rightarrow> verify_lastTransaction_reply_cb cb env pr (Inl exc) w
         | Inr v \<Rightarrow>
             (case as_bytes v of
                Some t \<Rightarrow> verify_lastTransaction_reply_cb cb env pr (Inr t) w
              | None \<Rightarrow> (Inl TypeError, w)))
      else cb g outcome w)"

text \<open>A callback that logs how many entries the pending table of Protocol \<open>p\<close> has when it
  is called.\<close>

definition pending_seen :: "pid \<Rightarrow> callbacks" where
  "pending_seen p f outcome w =
     (Inr (), emit (Log DEBUG ''pending: %r'' [LVal (PInt (int (length (futures (protos w p)))))]) w)"

text \<open>
  A Client that is connecting, after \<open>registered(p0, None)\<close>: Protocol 0 is the current
  one and \<open>verify\<close> waits for the reply to \<open>lastTransaction\<close>. In \<open>world6\<close> the Client is
  read-write and Protocol 0 was its only candidate; in \<open>world7\<close> the Client has the
  Fallback preference, Protocol 0 is read-only, and Protocol 1 (writable) and Protocol 2
  are still candidates.
\<close>

definition world6 :: world where
  "world6 = snd (registered no_callbacks env0 0 None (world0\<lparr>protocol := None, ready := Some False\<rparr>))"

definition world7 :: world where
  "world7 = snd (registered no_callbacks env0 0 None (world3\<lparr>protocol := None, ready := Some False\<rparr>))"

text \<open>The callbacks in \<open>world6\<close> and \<open>world7\<close>: the completion of \<open>lastTransaction\<close> is
  \<open>Fut\<close> 1, made by \<open>verify\<close> on Protocol 0.\<close>

definition verify_waits :: callbacks where
  "verify_waits = verify_suspended no_callbacks env0 (Some 0) (Future Fut 1)"

section \<open>Properties\<close>

subsection \<open>External calls that do not raise\<close>

lemma for_each_ext_quiet:
  "list_all (\<lambda>x. fault env (g x) = None) xs \<Longrightarrow>
   for_each xs (\<lambda>x. ext env (g x)) w = (Inr (), w\<lparr>trace := trace w @ map g xs\<rparr>)"
proof (induction xs arbitrary: w)
  case Nil
  then show ?case by simp
next
  case (Cons x xs)
  then show ?case by (simp add: ext_def emit_def)
qed

subsection \<open>Invalidations\<close>

text \<open>
  C2. When the Client is Ready (and neither the cache nor the application raises),
  \<open>invalidateTransaction tid oids\<close> invalidates every oid of \<open>oids\<close> in the cache with
  \<open>tid\<close>, then forwards the invalidation to the application, and only then sets the cache's
  last tid to \<open>tid\<close>: these are its only effects, in this order, so the last cache call is
  \<open>setLastTid(tid)\<close>. When the Client is not Ready (never connected, disconnected, or between
  registration and the end of verification) the handler returns without any call and
  leaves the state as it is.
\<close>

theorem invalidateTransaction_applies_when_ready:
  "(ready w = Some True \<and> (\<forall>e. fault env e = None) \<longrightarrow>
      invalidateTransaction env tid oids w =
        (Inr (), w\<lparr>trace := trace w @ map (\<lambda>oid. CacheInvalidate oid (Some tid)) oids @
                     [InvalidateTransaction tid oids, CacheSetLastTid tid]\<rparr>) \<and>
      last (trace (snd (invalidateTransaction env tid oids w))) = CacheSetLastTid tid) \<and>
   (ready w \<noteq> Some True \<longrightarrow> invalidateTransaction env tid oids w = (Inr (), w))"
proof -
  have step: "invalidateTransaction env tid oids w =
      (Inr (), w\<lparr>trace := trace w @ map (\<lambda>oid. CacheInvalidate oid (Some tid)) oids @
                     [InvalidateTransaction tid oids, CacheSetLastTid tid]\<rparr>)"
    if r: "ready w = Some True" and q: "\<forall>e. fault env e = None"
  proof -
    have "list_all (\<lambda>oid. fault env (CacheInvalidate oid (Some tid)) = None) oids"
      using q by (simp add: list_all_iff)
    then have loop: "for_each oids (\<lambda>oid. ext env (CacheInvalidate oid (Some tid))) w =
        (Inr (), w\<lparr>trace := trace w @ map (\<lambda>oid. CacheInvalidate oid (Some tid)) oids\<rparr>)"
      by (rule for_each_ext_quiet)
    show ?thesis
      using r q by (simp add: invalidateTransaction_def then_do_def loop ext_def emit_def)
  qed
  have idle: "invalidateTransaction env tid oids w = (Inr (), w)" if "ready w \<noteq> Some True"
    using that by (simp add: invalidateTransaction_def)
  show ?thesis
    using step idle by simp
qed

theorem invalidateTransaction_applies_when_ready_witness:
  "invalidateTransaction env0 ''t2'' [''a'', ''b''] world0 =
     (Inr (), world0\<lparr>trace := [CacheInvalidate ''a'' (Some ''t2''), CacheInvalidate ''b'' (Some ''t2''),
        InvalidateTransaction ''t2'' [''a'', ''b''], CacheSetLastTid ''t2'']\<rparr>) \<and>
   invalidateTransaction env0 ''t2'' [''a'', ''b''] (world0\<lparr>ready := Some False\<rparr>) =
     (Inr (), world0\<lparr>ready := Some False\<rparr>)"
  using invalidateTransaction_applies_when_ready [of world0 env0 "''t2''" "[''a'', ''b'']"]
    invalidateTransaction_applies_when_ready [of "world0\<lparr>ready := Some False\<rparr>" env0 "''t2''" "[''a'', ''b'']"]
  by (simp add: world0_def env0_def)

subsection \<open>Coalesced reads\<close>

lemma load_before_pending:
  "map_of (futures (protos w p)) (MsgKey oid tid) = Some f \<Longrightarrow> load_before p oid tid w = (f, w)"
  by (simp add: load_before_def)

lemma load_before_fresh:
  assumes "map_of (futures (protos w p)) (MsgKey oid tid) = None"
  shows "fst (load_before p oid tid w) = Future AsyncioFuture (next_fid w)"
    and "trace (snd (load_before p oid tid w)) =
           trace w @ [Write p (Frame (MsgKey oid tid) False ''loadBefore'' [PBytes oid, PBytes tid])]"
    and "map_of (futures (protos (snd (load_before p oid tid w)) p)) (MsgKey oid tid) =
           Some (Future AsyncioFuture (next_fid w))"
  using assms
  by (simp_all add: load_before_def new_future_def emit_def set_proto_def update_conv')

lemma load_before_calls_pending:
  "map_of (futures (protos w p)) (MsgKey oid tid) = Some f \<Longrightarrow>
   load_before_calls n p oid tid w = (replicate n f, w)"
  by (induction n) (simp_all add: load_before_pending)

text \<open>
  C3. While an entry for the key \<open>(oid, tid)\<close> is in the pending table of a Protocol,
  \<open>load_before oid tid\<close> returns the completion of that entry and changes nothing: no frame
  is written. When there is no entry, the call makes a new completion, enters it under the
  key and writes one \<open>loadBefore\<close> frame. So any number \<open>n + 1\<close> of calls for the same
  \<open>(oid, tid)\<close> made before a reply removes the entry write exactly one frame between
  them, and every caller holds the same completion.
\<close>

theorem load_before_coalesces:
  "(map_of (futures (protos w p)) (MsgKey oid tid) = Some f \<longrightarrow>
      load_before p oid tid w = (f, w)) \<and>
   (map_of (futures (protos w p)) (MsgKey oid tid) = None \<longrightarrow>
      fst (load_before_calls (Suc n) p oid tid w) =
        replicate (Suc n) (Future AsyncioFuture (next_fid w)) \<and>
      trace (snd (load_before_calls (Suc n) p oid tid w)) =
        trace w @ [Write p (Frame (MsgKey oid tid) False ''loadBefore'' [PBytes oid, PBytes tid])] \<and>
      frames_written p (MsgKey oid tid) (snd (load_before_calls (Suc n) p oid tid w)) =
        Suc (frames_written p (MsgKey oid tid) w))"
proof -
  have later: "load_before_calls (Suc n) p oid tid w =
      (replicate (Suc n) (Future AsyncioFuture (next_fid w)), snd (load_before p oid tid w))"
    if none: "map_of (futures (protos w p)) (MsgKey oid tid) = None"
  proof -
    obtain f1 w1 where first: "load_before p oid tid w = (f1, w1)"
      by (cases "load_before p oid tid w")
    have f1: "f1 = Future AsyncioFuture (next_fid w)"
      using load_before_fresh(1) [OF none] first by simp
    have "map_of (futures (protos w1 p)) (MsgKey oid tid) = Some f1"
      using load_before_fresh(3) [OF none] first f1 by simp
    then have "load_before_calls n p oid tid w1 = (replicate n f1, w1)"
      by (rule load_before_calls_pending)
    then show ?thesis
      using first f1 by simp
  qed
  show ?thesis
    using later load_before_fresh(2) [of w p oid tid]
    by (auto simp: load_before_pending frames_written_def)
qed

theorem load_before_coalesces_witness:
  "load_before 0 ''x'' ''t7''
      (world0\<lparr>protos := (\<lambda>p. protocol0\<lparr>futures := [(MsgKey ''x'' ''t7'', Future AsyncioFuture 5)]\<rparr>)\<rparr>) =
     (Future AsyncioFuture 5,
      world0\<lparr>protos := (\<lambda>p. protocol0\<lparr>futures := [(MsgKey ''x'' ''t7'', Future AsyncioFuture 5)]\<rparr>)\<rparr>) \<and>
   fst (load_before_calls (Suc 1) 0 ''x'' ''t7'' world0) =
     [Future AsyncioFuture 1, Future AsyncioFuture 1] \<and>
   trace (snd (load_before_calls (Suc 1) 0 ''x'' ''t7'' world0)) =
     [Write 0 (Frame (MsgKey ''x'' ''t7'') False ''loadBefore'' [PBytes ''x'', PBytes ''t7''])] \<and>
   frames_written 0 (MsgKey ''x'' ''t7'') (snd (load_before_calls (Suc 1) 0 ''x'' ''t7'' world0)) = 1"
  using load_before_coalesces [of
      "world0\<lparr>protos := (\<lambda>p. protocol0\<lparr>futures := [(MsgKey ''x'' ''t7'', Future AsyncioFuture 5)]\<rparr>)\<rparr>"
      0 "''x''" "''t7''" "Future AsyncioFuture 5" 1]
    load_before_coalesces [of world0 0 "''x''" "''t7''" "Future AsyncioFuture 5" 1]
  by (simp add: world0_def protocol0_def frames_written_def)

subsection \<open>Closing a Protocol\<close>

lemma fold_set_exception:
  "fold (\<lambda>f. set_exception f e) fs w = w\<lparr>trace := trace w @ map (\<lambda>f. SetException f e) fs\<rparr>"
  by (induction fs arbitrary: w) (simp_all add: set_exception_def emit_def)

lemma Protocol_close_eq:
  "Protocol_close p w =
     (if closed (protos w p) then w
      else w\<lparr>protos := (protos w)(p := (protos w p)\<lparr>closed := True, futures := []\<rparr>),
             trace := trace w @ close_events p (protos w p)\<rparr>)"
  by (simp add: Protocol_close_def pop_futures_def fold_set_exception set_proto_def emit_def
      close_events_def Let_def)

lemma written_append: "written (xs @ ys) = written xs @ written ys"
  by (induction xs rule: written.induct) simp_all

lemma written_map_SetException: "written (map (\<lambda>x. SetException (g x) e) xs) = []"
  by (induction xs) simp_all

lemma written_close_events: "written (close_events p P) = []"
  by (simp add: close_events_def written_append written_map_SetException o_def)

lemma register_failed_protocol:
  "register_failed (ProtocolObj p) exc w =
     (Inr (),
      (let w2 = emit (Log EXCEPTION ''Registration or cache validation failed, %s'' [LExc (Some exc)])
                  (Protocol_close p w)
       in if protocol w2 = None \<and> list_all (\<lambda>q. closed (protos w2 q)) (protocols w2)
          then emit (CallLater Try_connecting) w2 else w2))"
  by (simp add: register_failed_def Let_def list_ex_iff list_all_iff)

subsection \<open>Callbacks that do nothing\<close>

text \<open>
  A library completion is resolved by one call, whatever the callbacks are. So
  \<open>Protocol.close\<close> with the callbacks is \<open>Protocol_close\<close> when no \<open>Fut\<close> is pending on
  the Protocol; and with callbacks that do nothing, the operations with callbacks are
  the ones without: closing, clearing the candidates, \<open>disconnected\<close>,
  \<open>register_failed\<close> and \<open>verify\<close>. Then \<open>connection_lost\<close> on a Protocol that is not
  closed fails every pending completion, marks the Protocol closed and calls
  \<open>disconnected\<close>, and \<open>upgrade\<close> closes the current Protocol, promotes the registered
  one and closes the other candidates.
\<close>

lemma future_set_exception_library:
  "\<not> is_Fut f \<Longrightarrow> future_set_exception cb f exc w = (Inr (), set_exception f exc w)"
  by (cases f rule: is_Fut.cases) (simp_all add: future_set_exception_def)

lemma future_set_exception_no_callbacks:
  "future_set_exception no_callbacks f exc w = (Inr (), set_exception f exc w)"
  by (cases f rule: is_Fut.cases)
     (simp_all add: future_set_exception_def Fut_set_exception_def no_callbacks_def done_ok_def)

lemma for_each_fold:
  "list_all (\<lambda>x. \<forall>w. body x w = (Inr (), g x w)) xs \<Longrightarrow>
   for_each xs body w = (Inr (), fold g xs w)"
  by (induction xs arbitrary: w) simp_all

lemma Protocol_close_cb_library:
  "list_all (\<lambda>f. \<not> is_Fut f) (map snd (futures (protos w p))) \<Longrightarrow>
   Protocol_close_cb cb p w = (Inr (), Protocol_close p w)"
proof -
  assume a: "list_all (\<lambda>f. \<not> is_Fut f) (map snd (futures (protos w p)))"
  have "for_each (map snd (futures (protos w p)))
          (\<lambda>future. future_set_exception cb future (ClientDisconnected (StrArg ''Closed''))) w' =
        (Inr (), fold (\<lambda>future. set_exception future (ClientDisconnected (StrArg ''Closed'')))
                   (map snd (futures (protos w p))) w')" for w'
    using a by (intro for_each_fold) (simp add: list_all_iff future_set_exception_library)
  then show ?thesis
    by (simp add: Protocol_close_cb_def Protocol_close_def pop_futures_def Let_def set_proto_def
        emit_def)
qed

lemma Protocol_close_cb_no_callbacks:
  "Protocol_close_cb no_callbacks p w = (Inr (), Protocol_close p w)"
proof -
  have "for_each fs
          (\<lambda>future. future_set_exception no_callbacks future (ClientDisconnected (StrArg ''Closed''))) w' =
        (Inr (), fold (\<lambda>future. set_exception future (ClientDisconnected (StrArg ''Closed''))) fs w')"
    for fs w'
    by (intro for_each_fold) (simp add: list_all_iff future_set_exception_no_callbacks)
  then show ?thesis
    by (simp add: Protocol_close_cb_def Protocol_close_def pop_futures_def Let_def case_prod_beta)
qed

lemma clear_protocols_cb_no_callbacks:
  "clear_protocols_cb no_callbacks keep w = (Inr (), clear_protocols keep w)"
proof -
  have "for_each qs (\<lambda>p. if Some p \<noteq> keep then Protocol_close_cb no_callbacks p else done_ok) w' =
        (Inr (), fold (\<lambda>p w'. if Some p \<noteq> keep then Protocol_close p w' else w') qs w')" for qs w'
    by (intro for_each_fold) (simp add: list_all_iff Protocol_close_cb_no_callbacks done_ok_def)
  then show ?thesis
    by (simp add: clear_protocols_cb_def clear_protocols_def then_do_def)
qed

lemma disconnected_cb_no_callbacks:
  "disconnected_cb no_callbacks env pr w = disconnected env pr w"
  by (simp add: disconnected_cb_def disconnected_def clear_protocols_cb_no_callbacks Let_def
      case_prod_beta)

lemma register_failed_cb_no_callbacks:
  "register_failed_cb no_callbacks ob exc w = register_failed ob exc w"
  by (cases ob)
     (simp_all add: register_failed_cb_def register_failed_def Protocol_close_cb_no_callbacks
        then_do_def done_ok_def Let_def)

lemma verify_cb_no_callbacks:
  "verify_cb no_callbacks env server_tid w = verify env server_tid w"
  by (simp add: verify_cb_def verify_def verify_body_cb_def verify_body_def verify_end_cb_def
      verify_end_def register_failed_cb_no_callbacks split: option.splits prod.splits sum.splits)

lemma connection_lost_no_callbacks:
  "\<not> closed (protos w p) \<Longrightarrow>
   connection_lost no_callbacks env p exc w =
     disconnected env (Some p)
       (w\<lparr>trace := trace w @ [Log DEBUG ''connection_lost %r'' [LExc exc], HeartbeatCancel p] @
                   map (\<lambda>f. SetException f
                               (ClientDisconnected
                                  (case exc of None \<Rightarrow> StrArg ''connection lost''
                                   | Some e \<Rightarrow> ExnArg e)))
                     (map snd (futures (protos w p))),
          protos := (protos w)(p := (protos w p)\<lparr>futures := [], closed := True\<rparr>)\<rparr>)"
proof -
  have "for_each fs (\<lambda>f. future_set_exception no_callbacks f e) w' =
        (Inr (), fold (\<lambda>f. set_exception f e) fs w')" for fs e w'
    by (intro for_each_fold) (simp add: list_all_iff future_set_exception_no_callbacks)
  then show ?thesis if "\<not> closed (protos w p)"
    using that
    by (simp add: connection_lost_def Let_def emit_def pop_futures_def set_proto_def then_do_def
        fold_set_exception disconnected_cb_no_callbacks)
qed

lemma upgrade_no_callbacks:
  "protocol w = Some cur \<Longrightarrow>
   upgrade no_callbacks p w =
     (Inr (),
      clear_protocols (Some p)
        ((Protocol_close cur
            (w\<lparr>ready := Some False, next_fid := Suc (next_fid w),
               connected := Future ConcurrentFuture (next_fid w)\<rparr>))\<lparr>protocol := Some p\<rparr>))"
  by (simp add: upgrade_def new_future_def Let_def then_do_def Protocol_close_cb_no_callbacks
      clear_protocols_cb_no_callbacks)

subsection \<open>A Client whose verification waits for the server\<close>

lemma world6_eq:
  "world6 = world0\<lparr>protocols := [], ready := Some False, next_fid := 2,
      protos := (protos world0)(0 := protocol0\<lparr>message_id := 1, futures := [(MsgNum 1, Future Fut 1)]\<rparr>),
      trace := [Write 0 (Frame (MsgNum 1) False ''lastTransaction'' [])]\<rparr>"
  by (simp add: world6_def registered_def then_do_def clear_protocols_cb_def done_ok_def
      verify_cb_def fut_on_def fut_def call_def new_future_def emit_def set_proto_def Let_def
      world0_def protocol0_def)

lemma world7_eq:
  "world7 = world3\<lparr>ready := Some False, next_fid := 2,
      protos := (protos world3)(0 := protocol0\<lparr>read_only := RO True, message_id := 1,
                                      futures := [(MsgNum 1, Future Fut 1)]\<rparr>),
      trace := [Write 0 (Frame (MsgNum 1) False ''lastTransaction'' [])]\<rparr>"
  by (simp add: world7_def registered_def then_do_def clear_protocols_cb_def done_ok_def
      verify_cb_def fut_on_def fut_def call_def new_future_def emit_def set_proto_def Let_def
      world3_def world0_def protocol0_def)

subsection \<open>Version negotiation\<close>

lemma negotiated_member:
  "min v (last Protocol_protocols) \<in> set Protocol_protocols \<longleftrightarrow>
   v \<in> set Protocol_protocols \<or> last Protocol_protocols < v"
  by (auto simp: Protocol_protocols_def min_def)

text \<open>
  C5. For every version tag \<open>v\<close> that the server advertises, \<open>finish_connect\<close> sets the
  Protocol's version to \<open>min v client_max\<close>, where \<open>client_max\<close> is the last element of the
  supported tags (so the chosen tag is supported exactly when \<open>v\<close> is supported or lies
  above \<open>client_max\<close>). If the chosen tag is not supported, the call is
  \<open>register_failed(self, ProtocolError(v))\<close> on the Client and nothing else: no frame is
  written (neither the handshake echo nor a \<open>register\<close> call) and the Protocol ends closed.
  Otherwise the chosen tag is written back, then a \<open>register\<close> call with the storage key
  and the read-only flag (\<open>False\<close> for Fallback) under the next message id, whose
  completion, a new \<open>Fut\<close>, is entered in the pending table.
\<close>

theorem finish_connect_negotiates:
  "protocol_version (protos (snd (finish_connect p v w)) p) =
     Some (min v (last Protocol_protocols)) \<and>
   (min v (last Protocol_protocols) \<in> set Protocol_protocols \<longleftrightarrow>
      v \<in> set Protocol_protocols \<or> last Protocol_protocols < v) \<and>
   (min v (last Protocol_protocols) \<notin> set Protocol_protocols \<longrightarrow>
      finish_connect p v w =
        register_failed (ProtocolObj p) (ProtocolError v)
          (set_proto p (\<lambda>P. P\<lparr>protocol_version := Some (min v (last Protocol_protocols))\<rparr>) w) \<and>
      written (trace (snd (finish_connect p v w))) = written (trace w) \<and>
      closed (protos (snd (finish_connect p v w)) p)) \<and>
   (min v (last Protocol_protocols) \<in> set Protocol_protocols \<longrightarrow>
      finish_connect p v w =
        (Inr (),
         w\<lparr>next_fid := Suc (next_fid w),
           protos := (protos w)(p := (protos w p)
             \<lparr>protocol_version := Some (min v (last Protocol_protocols)),
              message_id := message_id (protos w p) + 1,
              futures := AList.update (MsgNum (message_id (protos w p) + 1))
                           (Future Fut (next_fid w)) (futures (protos w p))\<rparr>),
           trace := trace w @
             [Write p (Handshake (min v (last Protocol_protocols))),
              Write p (Frame (MsgNum (message_id (protos w p) + 1)) False ''register''
                         (register_args (protos w p)))]\<rparr>))"
proof -
  let ?v = "min v (last Protocol_protocols)"
  let ?w1 = "set_proto p (\<lambda>P. P\<lparr>protocol_version := Some ?v\<rparr>) w"
  have bad: "finish_connect p v w = register_failed (ProtocolObj p) (ProtocolError v) ?w1"
    if "?v \<notin> set Protocol_protocols"
    using that by (simp add: finish_connect_def Let_def)
  have bad_version: "protocol_version (protos (snd (register_failed (ProtocolObj p) (ProtocolError v) ?w1)) p) = Some ?v"
    by (simp add: register_failed_protocol Protocol_close_eq Let_def emit_def set_proto_def)
  have bad_written: "written (trace (snd (register_failed (ProtocolObj p) (ProtocolError v) ?w1))) = written (trace w)"
    by (simp add: register_failed_protocol Protocol_close_eq Let_def emit_def set_proto_def
        written_append written_close_events)
  have bad_closed: "closed (protos (snd (register_failed (ProtocolObj p) (ProtocolError v) ?w1)) p)"
    by (simp add: register_failed_protocol Protocol_close_eq Let_def emit_def set_proto_def)
  have good: "finish_connect p v w =
        (Inr (),
         w\<lparr>next_fid := Suc (next_fid w),
           protos := (protos w)(p := (protos w p)
             \<lparr>protocol_version := Some ?v,
              message_id := message_id (protos w p) + 1,
              futures := AList.update (MsgNum (message_id (protos w p) + 1))
                           (Future Fut (next_fid w)) (futures (protos w p))\<rparr>),
           trace := trace w @
             [Write p (Handshake ?v),
              Write p (Frame (MsgNum (message_id (protos w p) + 1)) False ''register''
                         (register_args (protos w p)))]\<rparr>)"
    if "?v \<in> set Protocol_protocols"
    using that
    by (simp add: finish_connect_def Let_def fut_def call_def new_future_def emit_def
        set_proto_def register_args_def)
  have version: "protocol_version (protos (snd (finish_connect p v w)) p) = Some ?v"
  proof (cases "?v \<in> set Protocol_protocols")
    case True
    then show ?thesis by (simp add: good)
  next
    case False
    then show ?thesis by (simp add: bad bad_version)
  qed
  show ?thesis
    using version negotiated_member [of v] bad bad_written bad_closed good
    by simp
qed

theorem finish_connect_negotiates_witness:
  "min ''Z4000'' (last Protocol_protocols) \<notin> set Protocol_protocols \<and>
   protocol_version (protos (snd (finish_connect 0 ''Z4000'' world0)) 0) = Some ''Z4000'' \<and>
   written (trace (snd (finish_connect 0 ''Z4000'' world0))) = [] \<and>
   closed (protos (snd (finish_connect 0 ''Z4000'' world0)) 0) \<and>
   min ''Z6'' (last Protocol_protocols) \<in> set Protocol_protocols \<and>
   trace (snd (finish_connect 0 ''Z6'' world0)) =
     [Write 0 (Handshake ''Z5''),
      Write 0 (Frame (MsgNum 1) False ''register'' [PStr ''1'', PBool False])]"
proof -
  have low: "min ''Z4000'' (last Protocol_protocols) = ''Z4000''"
    by (simp add: Protocol_protocols_def min_def)
  have high: "min ''Z6'' (last Protocol_protocols) = ''Z5''"
    by (simp add: Protocol_protocols_def min_def)
  have bad: "min ''Z4000'' (last Protocol_protocols) \<notin> set Protocol_protocols"
    unfolding low by (simp add: Protocol_protocols_def)
  have good: "min ''Z6'' (last Protocol_protocols) \<in> set Protocol_protocols"
    unfolding high by (simp add: Protocol_protocols_def)
  have refused: "protocol_version (protos (snd (finish_connect 0 ''Z4000'' world0)) 0) =
        Some (min ''Z4000'' (last Protocol_protocols)) \<and>
      written (trace (snd (finish_connect 0 ''Z4000'' world0))) = written (trace world0) \<and>
      closed (protos (snd (finish_connect 0 ''Z4000'' world0)) 0)"
    using finish_connect_negotiates [of 0 "''Z4000''" world0] bad by blast
  have accepted: "trace (snd (finish_connect 0 ''Z6'' world0)) =
      trace world0 @
        [Write 0 (Handshake (min ''Z6'' (last Protocol_protocols))),
         Write 0 (Frame (MsgNum (message_id (protos world0 0) + 1)) False ''register''
                    (register_args (protos world0 0)))]"
    using finish_connect_negotiates [of 0 "''Z6''" world0] good by simp
  show ?thesis
    using refused accepted bad good
    by (simp add: low high world0_def protocol0_def register_args_def)
qed

subsection \<open>Reply dispatch\<close>

lemma exception_reply_shape:
  "is_exception_reply args \<longleftrightarrow>
   (\<exists>c payload rest. args = PTuple (PClass c # payload # rest) \<and> metaclass_is_type c \<and>
      ''Exception'' \<in> set (mro c))"
proof (cases args)
  case (PTuple xs)
  show ?thesis
  proof (cases xs)
    case Nil
    with PTuple show ?thesis by (simp add: is_exception_reply_def)
  next
    case (Cons a ys)
    show ?thesis
    proof (cases ys)
      case Nil
      with PTuple Cons show ?thesis by (simp add: is_exception_reply_def)
    next
      case (Cons b zs)
      with PTuple \<open>xs = a # ys\<close> show ?thesis
        by (cases a) (simp_all add: is_exception_reply_def is_exception_class_def issubclass_def)
    qed
  qed
qed (simp_all add: is_exception_reply_def)

text \<open>
  C7. Let a reply frame \<open>(msgid, async, ".reply", args)\<close> arrive while \<open>msgid\<close> has a
  completion in the pending table. The entry is removed before the completion is
  resolved: the resolution is recorded, and the callback of a \<open>Fut\<close> is called, in the
  state \<open>popped\<close> (after the log entry, if there is one), whose table has no entry for
  \<open>msgid\<close>; that is the table the callback finds. If \<open>args\<close> is a tuple of at least two
  items whose first item is an exception class (a class object of metaclass \<open>type\<close> that
  derives from \<open>Exception\<close>), the completion fails with the second item; this is preceded
  by one error-level log entry unless the class derives from \<open>POSKeyError\<close> or
  \<open>ConflictError\<close>, in which case nothing is logged. In every other case the completion
  succeeds with \<open>args\<close> as its value. Resolving the completion is the last thing
  \<open>message_received\<close> does: for a \<open>Fut\<close> it ends as the callback ends, for a library
  completion it returns.
\<close>

theorem message_received_reply:
  "map_of (futures (protos w p)) msgid = Some (Future k i) \<longrightarrow>
   map_of (futures (protos (popped p msgid w) p)) msgid = None \<and>
   map_of (futures (protos (emit ev (popped p msgid w)) p)) msgid = None \<and>
   map_of (futures (protos (emit ev (emit ev' (popped p msgid w))) p)) msgid = None \<and>
   (args = PTuple (PClass c # payload # rest) \<and> metaclass_is_type c \<and>
    ''Exception'' \<in> set (mro c) \<and>
    \<not> (''POSKeyError'' \<in> set (mro c) \<or> ''ConflictError'' \<in> set (mro c)) \<longrightarrow>
      message_received cb env p (msgid, async, ''.reply'', args) w =
        (if k = Fut
         then cb (Future k i) (Inl (Raised payload))
                (emit (SetException (Future k i) (Raised payload))
                   (emit (Log ERROR ''%s from server: %s.%s:%s''
                            [LObj (ProtocolObj p), LText (class_module c), LText (class_name c),
                             LVal payload])
                      (popped p msgid w)))
         else (Inr (),
               emit (SetException (Future k i) (Raised payload))
                 (emit (Log ERROR ''%s from server: %s.%s:%s''
                          [LObj (ProtocolObj p), LText (class_module c), LText (class_name c),
                           LVal payload])
                    (popped p msgid w))))) \<and>
   (args = PTuple (PClass c # payload # rest) \<and> metaclass_is_type c \<and>
    ''Exception'' \<in> set (mro c) \<and>
    (''POSKeyError'' \<in> set (mro c) \<or> ''ConflictError'' \<in> set (mro c)) \<longrightarrow>
      message_received cb env p (msgid, async, ''.reply'', args) w =
        (if k = Fut
         then cb (Future k i) (Inl (Raised payload))
                (emit (SetException (Future k i) (Raised payload)) (popped p msgid w))
         else (Inr (), emit (SetException (Future k i) (Raised payload)) (popped p msgid w)))) \<and>
   (\<not> (\<exists>c' payload' rest'. args = PTuple (PClass c' # payload' # rest') \<and>
          metaclass_is_type c' \<and> ''Exception'' \<in> set (mro c')) \<longrightarrow>
      message_received cb env p (msgid, async, ''.reply'', args) w =
        (if k = Fut
         then cb (Future k i) (Inr args) (emit (SetResult (Future k i) args) (popped p msgid w))
         else (Inr (), emit (SetResult (Future k i) args) (popped p msgid w))))"
proof
  assume pending: "map_of (futures (protos w p)) msgid = Some (Future k i)"
  have gone: "map_of (futures (protos (popped p msgid w) p)) msgid = None"
    "map_of (futures (protos (emit ev (popped p msgid w)) p)) msgid = None"
    "map_of (futures (protos (emit ev (emit ev' (popped p msgid w))) p)) msgid = None"
    by (simp_all add: popped_def set_proto_def emit_def delete_conv')
  have fails: "future_set_exception cb (Future k i) e s =
      (if k = Fut then cb (Future k i) (Inl e) (emit (SetException (Future k i) e) s)
       else (Inr (), emit (SetException (Future k i) e) s))" for e s
    by (cases k) (simp_all add: future_set_exception_def Fut_set_exception_def set_exception_def)
  have succeeds: "future_set_result cb (Future k i) v s =
      (if k = Fut then cb (Future k i) (Inr v) (emit (SetResult (Future k i) v) s)
       else (Inr (), emit (SetResult (Future k i) v) s))" for v s
    by (cases k) (simp_all add: future_set_result_def Fut_set_result_def set_result_def)
  have logged: "message_received cb env p (msgid, async, ''.reply'', args) w =
        future_set_exception cb (Future k i) (Raised payload)
          (emit (Log ERROR ''%s from server: %s.%s:%s''
                   [LObj (ProtocolObj p), LText (class_module c), LText (class_name c), LVal payload])
             (popped p msgid w))"
    if "args = PTuple (PClass c # payload # rest)" "metaclass_is_type c"
      "''Exception'' \<in> set (mro c)"
      "\<not> (''POSKeyError'' \<in> set (mro c) \<or> ''ConflictError'' \<in> set (mro c))"
    using that pending
    by (simp add: message_received_def is_exception_reply_def is_exception_class_def
        issubclass_def is_known_data_error_def tuple_item_def class_text_def popped_def Let_def)
  have quiet: "message_received cb env p (msgid, async, ''.reply'', args) w =
        future_set_exception cb (Future k i) (Raised payload) (popped p msgid w)"
    if "args = PTuple (PClass c # payload # rest)" "metaclass_is_type c"
      "''Exception'' \<in> set (mro c)"
      "''POSKeyError'' \<in> set (mro c) \<or> ''ConflictError'' \<in> set (mro c)"
    using that pending
    by (auto simp: message_received_def is_exception_reply_def is_exception_class_def
        issubclass_def is_known_data_error_def tuple_item_def class_text_def popped_def Let_def)
  have success: "message_received cb env p (msgid, async, ''.reply'', args) w =
        future_set_result cb (Future k i) args (popped p msgid w)"
    if "\<not> (\<exists>c' payload' rest'. args = PTuple (PClass c' # payload' # rest') \<and>
          metaclass_is_type c' \<and> ''Exception'' \<in> set (mro c'))"
  proof -
    have "\<not> is_exception_reply args"
      using that by (simp only: exception_reply_shape not_False_eq_True)
    then show ?thesis
      using pending by (simp add: message_received_def popped_def Let_def)
  qed
  show "map_of (futures (protos (popped p msgid w) p)) msgid = None \<and>
   map_of (futures (protos (emit ev (popped p msgid w)) p)) msgid = None \<and>
   map_of (futures (protos (emit ev (emit ev' (popped p msgid w))) p)) msgid = None \<and>
   (args = PTuple (PClass c # payload # rest) \<and> metaclass_is_type c \<and>
    ''Exception'' \<in> set (mro c) \<and>
    \<not> (''POSKeyError'' \<in> set (mro c) \<or> ''ConflictError'' \<in> set (mro c)) \<longrightarrow>
      message_received cb env p (msgid, async, ''.reply'', args) w =
        (if k = Fut
         then cb (Future k i) (Inl (Raised payload))
                (emit (SetException (Future k i) (Raised payload))
                   (emit (Log ERROR ''%s from server: %s.%s:%s''
                            [LObj (ProtocolObj p), LText (class_module c), LText (class_name c),
                             LVal payload])
                      (popped p msgid w)))
         else (Inr (),
               emit (SetException (Future k i) (Raised payload))
                 (emit (Log ERROR ''%s from server: %s.%s:%s''
                          [LObj (ProtocolObj p), LText (class_module c), LText (class_name c),
                           LVal payload])
                    (popped p msgid w))))) \<and>
   (args = PTuple (PClass c # payload # rest) \<and> metaclass_is_type c \<and>
    ''Exception'' \<in> set (mro c) \<and>
    (''POSKeyError'' \<in> set (mro c) \<or> ''ConflictError'' \<in> set (mro c)) \<longrightarrow>
      message_received cb env p (msgid, async, ''.reply'', args) w =
        (if k = Fut
         then cb (Future k i) (Inl (Raised payload))
                (emit (SetException (Future k i) (Raised payload)) (popped p msgid w))
         else (Inr (), emit (SetException (Future k i) (Raised payload)) (popped p msgid w)))) \<and>
   (\<not> (\<exists>c' payload' rest'. args = PTuple (PClass c' # payload' # rest') \<and>
          metaclass_is_type c' \<and> ''Exception'' \<in> set (mro c')) \<longrightarrow>
      message_received cb env p (msgid, async, ''.reply'', args) w =
        (if k = Fut
         then cb (Future k i) (Inr args) (emit (SetResult (Future k i) args) (popped p msgid w))
         else (Inr (), emit (SetResult (Future k i) args) (popped p msgid w))))"
    unfolding fails [symmetric] succeeds [symmetric]
    using gone logged quiet success by blast
qed

theorem message_received_reply_witness:
  "message_received (pending_seen 0) env0 0 (MsgNum 1, False, ''.reply'', PBytes ''t5'') world6 =
     (Inr (),
      world6\<lparr>protos := (protos world6)(0 := (protos world6 0)\<lparr>futures := []\<rparr>),
             trace := [Write 0 (Frame (MsgNum 1) False ''lastTransaction'' []),
                       SetResult (Future Fut 1) (PBytes ''t5''),
                       Log DEBUG ''pending: %r'' [LVal (PInt 0)]]\<rparr>) \<and>
   trace (snd (message_received no_callbacks env0 0
      (MsgNum 1, False, ''.reply'', PTuple [PClass StorageError, PInstance StorageError []]) world1)) =
     [Log ERROR ''%s from server: %s.%s:%s''
        [LObj (ProtocolObj 0), LText ''ZODB.POSException'', LText ''StorageError'',
         LVal (PInstance StorageError [])],
      SetException (Future ConcurrentFuture 3) (Raised (PInstance StorageError []))] \<and>
   trace (snd (message_received no_callbacks env0 0
      (MsgNum 1, False, ''.reply'', PTuple [PClass POSKeyError, PInstance POSKeyError []]) world1)) =
     [SetException (Future ConcurrentFuture 3) (Raised (PInstance POSKeyError []))] \<and>
   futures (protos (snd (message_received no_callbacks env0 0
      (MsgNum 1, False, ''.reply'', PTuple [PClass POSKeyError, PInstance POSKeyError []]) world1)) 0) =
     [(MsgKey ''x'' ''t7'', Future AsyncioFuture 5)]"
proof -
  have pending1: "map_of (futures (protos world1 0)) (MsgNum 1) = Some (Future ConcurrentFuture 3)"
    by (simp add: world1_def world0_def protocol0_def)
  have pending6: "map_of (futures (protos world6 0)) (MsgNum 1) = Some (Future Fut 1)"
    by (simp add: world6_eq)
  have success: "message_received (pending_seen 0) env0 0 (MsgNum 1, False, ''.reply'', PBytes ''t5'') world6 =
      pending_seen 0 (Future Fut 1) (Inr (PBytes ''t5''))
        (emit (SetResult (Future Fut 1) (PBytes ''t5'')) (popped 0 (MsgNum 1) world6))"
    using message_received_reply [of world6 0 "MsgNum 1" Fut 1 _ _ "PBytes ''t5''" StorageError
        PNone "[]" "pending_seen 0" env0 False] pending6
    by simp
  have logged: "message_received no_callbacks env0 0
      (MsgNum 1, False, ''.reply'', PTuple [PClass StorageError, PInstance StorageError []]) world1 =
      (Inr (),
       emit (SetException (Future ConcurrentFuture 3) (Raised (PInstance StorageError [])))
         (emit (Log ERROR ''%s from server: %s.%s:%s''
                  [LObj (ProtocolObj 0), LText (class_module StorageError),
                   LText (class_name StorageError), LVal (PInstance StorageError [])])
            (popped 0 (MsgNum 1) world1)))"
    using message_received_reply [of world1 0 "MsgNum 1" ConcurrentFuture 3 _ _
        "PTuple [PClass StorageError, PInstance StorageError []]" StorageError
        "PInstance StorageError []" "[]" no_callbacks env0 False] pending1
    by (simp add: StorageError_def)
  have quiet: "message_received no_callbacks env0 0
      (MsgNum 1, False, ''.reply'', PTuple [PClass POSKeyError, PInstance POSKeyError []]) world1 =
      (Inr (),
       emit (SetException (Future ConcurrentFuture 3) (Raised (PInstance POSKeyError [])))
         (popped 0 (MsgNum 1) world1))"
    using message_received_reply [of world1 0 "MsgNum 1" ConcurrentFuture 3 _ _
        "PTuple [PClass POSKeyError, PInstance POSKeyError []]" POSKeyError
        "PInstance POSKeyError []" "[]" no_callbacks env0 False] pending1
    by (simp add: POSKeyError_def)
  show ?thesis
    unfolding logged quiet success
    by (simp add: pending_seen_def emit_def popped_def set_proto_def world6_eq
        world1_def world0_def protocol0_def StorageError_def)
qed

subsection \<open>The blocking call surface\<close>

lemma dunder_call_closed:
  "runner_call r = Call_closed \<Longrightarrow>
   dunder_call re m args tmo r = (Inl (ClientDisconnected (StrArg ''closed'')), r)"
  by (simp add: dunder_call_def)

lemma ClientRunner_close_returns:
  "ClientRunner_close re r = (Inr (), r') \<Longrightarrow> runner_call r' = Call_closed"
  by (auto simp: ClientRunner_close_def split: prod.splits sum.splits)

text \<open>
  C9. Every blocking call of the runner goes through the closure bound to \<open>self.__call\<close>.
  While that closure is the one of \<open>setup_delegation\<close>: if waiting for the completion
  of the call times out, the caller gets \<open>ClientDisconnected("timed out waiting for
  connection")\<close> when the Client is not Ready at that moment, and the \<open>TimeoutError\<close> itself
  when it is Ready. Once \<open>close\<close> has returned, every further call (\<open>call\<close>, \<open>async\<close>,
  \<open>async_iter\<close>, \<open>prefetch\<close>, \<open>load_before\<close>, \<open>tpc_finish\<close>, \<open>new_addrs\<close>, \<open>close\<close>)
  raises \<open>ClientDisconnected("closed")\<close> and leaves the runner as it is: nothing is
  handed to the I/O thread.
\<close>

theorem runner_timeout_and_close:
  "(runner_call r = Call_open \<and>
    future_result re (Future ConcurrentFuture (runner_next_fid r))
      (case tmo of None \<Rightarrow> timeout r | Some t \<Rightarrow> t) = Inl TimeoutError \<longrightarrow>
      fst (dunder_call re m args tmo r) =
        (if client_ready re = Some True then Inl TimeoutError
         else Inl (ClientDisconnected (StrArg ''timed out waiting for connection''))) \<and>
      fst (ClientRunner_call re method margs tmo r) =
        (if client_ready re = Some True then Inl TimeoutError
         else Inl (ClientDisconnected (StrArg ''timed out waiting for connection'')))) \<and>
   (ClientRunner_close re r = (Inr (), r') \<longrightarrow>
      dunder_call re' m args tmo r' = (Inl (ClientDisconnected (StrArg ''closed'')), r') \<and>
      ClientRunner_call re' method margs tmo r' = (Inl (ClientDisconnected (StrArg ''closed'')), r') \<and>
      ClientRunner_async re' method margs r' = (Inl (ClientDisconnected (StrArg ''closed'')), r') \<and>
      ClientRunner_async_iter re' a r' = (Inl (ClientDisconnected (StrArg ''closed'')), r') \<and>
      ClientRunner_prefetch re' a b r' = (Inl (ClientDisconnected (StrArg ''closed'')), r') \<and>
      ClientRunner_load_before re' a b r' = (Inl (ClientDisconnected (StrArg ''closed'')), r') \<and>
      ClientRunner_tpc_finish re' a b c r' = (Inl (ClientDisconnected (StrArg ''closed'')), r') \<and>
      ClientRunner_new_addrs re' a r' = (Inl (ClientDisconnected (StrArg ''closed'')), r') \<and>
      ClientRunner_close re' r' = (Inl (ClientDisconnected (StrArg ''closed'')), r'))"
proof -
  have timed_out: "fst (dunder_call re m' args' tmo r) =
        (if client_ready re = Some True then Inl TimeoutError
         else Inl (ClientDisconnected (StrArg ''timed out waiting for connection'')))"
    if "runner_call r = Call_open"
      "future_result re (Future ConcurrentFuture (runner_next_fid r))
         (case tmo of None \<Rightarrow> timeout r | Some t \<Rightarrow> t) = Inl TimeoutError"
    for m' args'
    using that by (cases tmo) (simp_all add: dunder_call_def call_open_def Let_def wait_for_result_def)
  have after: "dunder_call re' m' args' tmo' r' = (Inl (ClientDisconnected (StrArg ''closed'')), r')"
    if "ClientRunner_close re r = (Inr (), r')" for m' args' tmo'
    using ClientRunner_close_returns [OF that] by (rule dunder_call_closed)
  show ?thesis
    using timed_out after
    by (simp add: ClientRunner_call_def ClientRunner_async_def ClientRunner_async_iter_def
        ClientRunner_prefetch_def ClientRunner_load_before_def ClientRunner_tpc_finish_def
        ClientRunner_new_addrs_def ClientRunner_close_def)
qed

theorem runner_timeout_and_close_witness:
  "fst (ClientRunner_call renv_timeout ''loadEx'' [PBytes ''x''] None runner0) =
     Inl (ClientDisconnected (StrArg ''timed out waiting for connection'')) \<and>
   fst (ClientRunner_call (renv_timeout\<lparr>client_ready := Some True\<rparr>) ''loadEx'' [PBytes ''x'']
          (Some 5) runner0) = Inl TimeoutError \<and>
   ClientRunner_close renv_ok runner0 =
     (Inr (), \<lparr>timeout = 30, runner_call = Call_closed,
                scheduled = [(M_close_threadsafe, Future ConcurrentFuture 0, [])],
                runner_next_fid = 1\<rparr>) \<and>
   ClientRunner_call renv_ok ''loadEx'' [PBytes ''x''] None
     \<lparr>timeout = 30, runner_call = Call_closed,
      scheduled = [(M_close_threadsafe, Future ConcurrentFuture 0, [])], runner_next_fid = 1\<rparr> =
     (Inl (ClientDisconnected (StrArg ''closed'')),
      \<lparr>timeout = 30, runner_call = Call_closed,
       scheduled = [(M_close_threadsafe, Future ConcurrentFuture 0, [])], runner_next_fid = 1\<rparr>)"
proof -
  let ?r' = "\<lparr>timeout = 30, runner_call = Call_closed,
      scheduled = [(M_close_threadsafe, Future ConcurrentFuture 0, [])], runner_next_fid = 1\<rparr>"
  have closes: "ClientRunner_close renv_ok runner0 = (Inr (), ?r')"
    by (simp add: ClientRunner_close_def dunder_call_def call_open_def wait_for_result_def
        renv_ok_def runner0_def Let_def)
  have not_ready: "fst (ClientRunner_call renv_timeout ''loadEx'' [PBytes ''x''] None runner0) =
      Inl (ClientDisconnected (StrArg ''timed out waiting for connection''))"
    using runner_timeout_and_close [of runner0 renv_timeout None M_call_threadsafe "[]"
        "''loadEx''" "[PBytes ''x'']"]
    by (simp add: renv_timeout_def runner0_def)
  have is_ready: "fst (ClientRunner_call (renv_timeout\<lparr>client_ready := Some True\<rparr>) ''loadEx''
      [PBytes ''x''] (Some 5) runner0) = Inl TimeoutError"
    using runner_timeout_and_close [of runner0 "renv_timeout\<lparr>client_ready := Some True\<rparr>"
        "Some 5" M_call_threadsafe "[]" "''loadEx''" "[PBytes ''x'']"]
    by (simp add: renv_timeout_def runner0_def)
  have after: "ClientRunner_call renv_ok ''loadEx'' [PBytes ''x''] None ?r' =
      (Inl (ClientDisconnected (StrArg ''closed'')), ?r')"
    using runner_timeout_and_close [of runner0 renv_ok None M_call_threadsafe "[]"
        "''loadEx''" "[PBytes ''x'']" ?r' renv_ok] closes
    by simp
  show ?thesis
    using closes not_ready is_ready after by simp
qed

subsection \<open>Connection loss\<close>

text \<open>
  C8. The claim: on the loss of the connection of a Protocol that was not closed
  deliberately, all pending completions fail with \<open>ClientDisconnected\<close> carrying the loss
  reason, the Protocol is marked closed, and the Client is notified by
  \<open>disconnected(self)\<close>. The code does not get that far while \<open>verify\<close> waits for the reply
  to \<open>lastTransaction\<close> on the Protocol, as in \<open>world6\<close>, the Client after
  \<open>registered(p0, None)\<close>. There \<open>f.set_exception(ClientDisconnected('connection lost'))\<close>
  resumes \<open>verify\<close> at its first \<open>yield\<close>, which stands outside the \<open>try\<close>; the exception
  leaves the generator, the callback and the loop of \<open>connection_lost\<close>, and the two
  statements after the loop do not run. So \<open>connection_lost(None)\<close> ends with
  \<open>ClientDisconnected('connection lost')\<close>, the Protocol is not marked closed and is
  still the current one, the Client is as it was, and \<open>disconnected\<close> was not called: the
  trace ends with the failed completion, without the log entry of \<open>disconnected\<close> and
  without \<open>notify_disconnected\<close>.
\<close>

theorem connection_lost_raises_before_closing:
  "\<not> closed (protos world6 0) \<and>
   protocol world6 = Some 0 \<and>
   futures (protos world6 0) = [(MsgNum 1, Future Fut 1)] \<and>
   fst (connection_lost verify_waits env0 0 None world6) =
     Inl (ClientDisconnected (StrArg ''connection lost'')) \<and>
   \<not> closed (protos (snd (connection_lost verify_waits env0 0 None world6)) 0) \<and>
   protocol (snd (connection_lost verify_waits env0 0 None world6)) = Some 0 \<and>
   connected (snd (connection_lost verify_waits env0 0 None world6)) = connected world6 \<and>
   protocols (snd (connection_lost verify_waits env0 0 None world6)) = protocols world6 \<and>
   trace (snd (connection_lost verify_waits env0 0 None world6)) =
     [Write 0 (Frame (MsgNum 1) False ''lastTransaction'' []),
      Log DEBUG ''connection_lost %r'' [LExc None], HeartbeatCancel 0,
      SetException (Future Fut 1) (ClientDisconnected (StrArg ''connection lost''))]"
  by (simp add: world6_eq connection_lost_def pop_futures_def then_do_def Let_def emit_def
      set_proto_def future_set_exception_def Fut_set_exception_def set_exception_def
      verify_waits_def verify_suspended_def verify_lastTransaction_reply_cb_def
      world0_def protocol0_def)

subsection \<open>Upgrade to a writable connection\<close>

text \<open>
  C6. The claim: when the Client's preference is Fallback and a writable Protocol
  registers while the current Protocol is read-only, \<open>registered\<close> performs the upgrade:
  Ready is cleared, \<open>connected\<close> is replaced by a new completion, the old current
  Protocol is closed, the registered Protocol becomes the current one, every other
  candidate is closed, and \<open>verify\<close> runs on the new Protocol. The code does not get that
  far while \<open>verify\<close> waits for the reply to \<open>lastTransaction\<close> on the current Protocol, as
  in \<open>world7\<close>, the Client after \<open>registered(p0, None)\<close> with the read-only Protocol 0.
  There \<open>upgrade\<close> clears Ready, replaces \<open>connected\<close> and calls \<open>self.protocol.close()\<close>;
  \<open>close\<close> fails the pending \<open>Fut\<close> with \<open>ClientDisconnected('Closed')\<close>, which resumes
  \<open>verify\<close> at its first \<open>yield\<close>, outside the \<open>try\<close>; the exception leaves the generator,
  the callback, \<open>close\<close>, \<open>upgrade\<close> and \<open>registered\<close>. So \<open>registered(p1, 't9')\<close> ends
  with \<open>ClientDisconnected('Closed')\<close>: Protocol 0 is closed and still the current one,
  Protocol 1 was not promoted, the candidates are still listed and Protocols 1 and 2 are
  open, and \<open>verify\<close> did not run on Protocol 1 (nothing was written to it).
\<close>

theorem registered_upgrade_aborts:
  "client_read_only world7 = Fallback \<and>
   protocol world7 = Some 0 \<and>
   read_only (protos world7 0) = RO True \<and>
   read_only (protos world7 1) = RO False \<and>
   futures (protos world7 0) = [(MsgNum 1, Future Fut 1)] \<and>
   fst (registered verify_waits env0 1 (Some ''t9'') world7) =
     Inl (ClientDisconnected (StrArg ''Closed'')) \<and>
   ready (snd (registered verify_waits env0 1 (Some ''t9'') world7)) = Some False \<and>
   connected (snd (registered verify_waits env0 1 (Some ''t9'') world7)) =
     Future ConcurrentFuture 2 \<and>
   closed (protos (snd (registered verify_waits env0 1 (Some ''t9'') world7)) 0) \<and>
   protocol (snd (registered verify_waits env0 1 (Some ''t9'') world7)) = Some 0 \<and>
   protocols (snd (registered verify_waits env0 1 (Some ''t9'') world7)) = [0, 1, 2] \<and>
   \<not> closed (protos (snd (registered verify_waits env0 1 (Some ''t9'') world7)) 1) \<and>
   \<not> closed (protos (snd (registered verify_waits env0 1 (Some ''t9'') world7)) 2) \<and>
   trace (snd (registered verify_waits env0 1 (Some ''t9'') world7)) =
     [Write 0 (Frame (MsgNum 1) False ''lastTransaction'' []),
      ConnectingCancel 0, TransportClose 0,
      SetException (Future Fut 1) (ClientDisconnected (StrArg ''Closed''))]"
  by (simp add: world7_eq registered_def upgrade_def Protocol_close_cb_def pop_futures_def
      then_do_def Let_def emit_def new_future_def set_proto_def future_set_exception_def
      Fut_set_exception_def set_exception_def verify_waits_def verify_suspended_def
      verify_lastTransaction_reply_cb_def world3_def world0_def protocol0_def)

subsection \<open>Closing the other candidates\<close>



lemma Protocol_close_fields:
  "ready (Protocol_close p w) = ready w"
  "protocol (Protocol_close p w) = protocol w"
  "protocols (Protocol_close p w) = protocols w"
  "connected (Protocol_close p w) = connected w"
  "next_fid (Protocol_close p w) = next_fid w"
  "next_pid (Protocol_close p w) = next_pid w"
  "client_closed (Protocol_close p w) = client_closed w"
  "client_read_only (Protocol_close p w) = client_read_only w"
  "client_storage_key (Protocol_close p w) = client_storage_key w"
  "addrs (Protocol_close p w) = addrs w"
  "verify_result (Protocol_close p w) = verify_result w"
  by (simp_all add: Protocol_close_eq)

lemma Protocol_close_closes: "closed (protos (Protocol_close p w) p)"
  by (simp add: Protocol_close_eq)





subsection \<open>Reconnecting\<close>


lemma create_protocols_next_pid:
  "next_pid (snd (create_protocols as w)) = next_pid w + length as"
  by (induction as arbitrary: w) (simp_all add: Let_def emit_def case_prod_beta)


lemma create_protocols_pids:
  "fst (create_protocols as w) = [next_pid w ..< next_pid w + length as]"
  by (induction as arbitrary: w) (simp_all add: Let_def emit_def case_prod_beta upt_rec)







subsection \<open>Commit\<close>












subsection \<open>Cache verification\<close>

lemma last_tids_append: "last_tids (xs @ ys) = last_tids xs @ last_tids ys"
  by (induction xs rule: last_tids.induct) simp_all

lemma last_tids_map_SetException: "last_tids (map (\<lambda>x. SetException (g x) e) xs) = []"
  by (induction xs) simp_all

lemma last_tids_close_events: "last_tids (close_events p P) = []"
  by (simp add: close_events_def last_tids_append last_tids_map_SetException o_def)

lemma verify_finish_quiet:
  "fault env (CacheSetLastTid t) = None \<Longrightarrow>
   verify_finish env (Some p) t w =
     (Inr (), snd (fut p ''get_info'' [] (w\<lparr>trace := trace w @ [CacheSetLastTid t], ready := Some True\<rparr>)))"
  by (simp add: verify_finish_def then_do_def ext_def emit_def fut_on_def case_prod_beta)

lemma verify_finish_fault:
  "fault env (CacheSetLastTid t) = Some x \<Longrightarrow>
   verify_finish env pr t w = (Inl x, w\<lparr>trace := trace w @ [CacheSetLastTid t]\<rparr>)"
  by (simp add: verify_finish_def then_do_def ext_def emit_def)


lemma clear_cache_quiet:
  "fault env CacheClear = None \<Longrightarrow> fault env InvalidateCache = None \<Longrightarrow>
   clear_cache env t w = (Inr (Some t), w\<lparr>trace := trace w @ [CacheClear, InvalidateCache]\<rparr>)"
  by (simp add: clear_cache_def then_do_def ext_def emit_def)

lemma verify_fatal:
  assumes "cache_nonempty env" "cache_getLastTid env = Some c" "c \<noteq> []" "t < c"
  shows "verify_body env (Some p) t w =
      register_failed (ProtocolObj p) (ServerBehindClient t c (ProtocolObj p))
        (w\<lparr>verify_result := Some ''Cache newer than server'',
           trace := trace w @ [Log CRITICAL ''Client has seen newer transactions than server!'' []],
           protocol := None\<rparr>)"
  using assms
  by (simp add: verify_body_def verify_cache_def verify_end_def emit_def obj_of_def)

lemma register_failed_protocol_effects:
  "fst (register_failed (ProtocolObj p) exc w) = Inr ()"
  "ready (snd (register_failed (ProtocolObj p) exc w)) = ready w"
  "protocol (snd (register_failed (ProtocolObj p) exc w)) = protocol w"
  "closed (protos (snd (register_failed (ProtocolObj p) exc w)) p)"
  "last_tids (trace (snd (register_failed (ProtocolObj p) exc w))) = last_tids (trace w)"
  by (simp_all add: register_failed_protocol Let_def emit_def Protocol_close_fields
      Protocol_close_closes Protocol_close_eq last_tids_append last_tids_close_events)

text \<open>
  C1. \<open>verify(server_tid)\<close> with a tid from registration, and the piece of \<open>verify\<close>
  that runs when \<open>lastTransaction\<close> has answered, are the same case analysis
  (\<open>verify_body\<close>) on the Protocol \<open>p\<close> adopted. When neither the cache nor the application
  raises:
  \<^item> empty cache: no cache call, label "empty cache";
  \<^item> cache not empty, last tid \<open>None\<close> or empty: error log, \<open>cache.clear()\<close>,
    \<open>invalidateCache()\<close>, label "Non-empty cache w/o tid";
  \<^item> cache tid above the server tid: label "Cache newer than server", critical log, the
    \<open>AssertionError\<close> goes to \<open>register_failed(protocol, exc)\<close> after \<open>self.protocol\<close> is
    dropped; the Protocol ends closed, \<open>ready\<close> is as it was and
    \<open>cache.setLastTid\<close> is not called;
  \<^item> cache tid equal to the server tid: no call, label "Cache up to date";
  \<^item> cache tid below the server tid: \<open>getInvalidations(cache_tid)\<close> is sent to \<open>p\<close>. On
    the reply \<open>(new_tid, oids)\<close>: every oid is invalidated in the cache, then
    \<open>invalidateTransaction(new_tid, oids)\<close> goes to the application, label "quick
    verification", and \<open>new_tid\<close> is the tid to record. On the reply \<open>None\<close>: the
    \<open>StaleCache\<close> event, a critical log, \<open>cache.clear()\<close>, \<open>invalidateCache()\<close>, label
    "cache too old, clearing".
  In every case but the fatal one \<open>verify_finish\<close> follows with the tid to record:
  \<open>cache.setLastTid\<close> with that tid, then \<open>ready = True\<close>, then the \<open>get_info\<close> call on
  \<open>p\<close>. If \<open>setLastTid\<close> raises, \<open>ready\<close> is not set.
\<close>

theorem verify_case_analysis:
  "verify env (Some t) w = verify_body env (protocol w) t w \<and>
   verify_lastTransaction_reply env pr (Inr t) w = verify_body env pr t w \<and>
   ((\<forall>e. fault env e = None) \<longrightarrow>
      (\<not> cache_nonempty env \<longrightarrow>
         verify_body env (Some p) t w =
           verify_finish env (Some p) t (w\<lparr>verify_result := Some ''empty cache''\<rparr>)) \<and>
      (cache_nonempty env \<and> (cache_getLastTid env = None \<or> cache_getLastTid env = Some []) \<longrightarrow>
         verify_body env (Some p) t w =
           verify_finish env (Some p) t
             (w\<lparr>verify_result := Some ''Non-empty cache w/o tid'',
                trace := trace w @ [Log ERROR ''Non-empty cache w/o tid -- clearing'' [],
                                    CacheClear, InvalidateCache]\<rparr>)) \<and>
      (cache_nonempty env \<and> cache_getLastTid env = Some c \<and> c \<noteq> [] \<and> t < c \<longrightarrow>
         verify_body env (Some p) t w =
           register_failed (ProtocolObj p) (ServerBehindClient t c (ProtocolObj p))
             (w\<lparr>verify_result := Some ''Cache newer than server'',
                trace := trace w @ [Log CRITICAL ''Client has seen newer transactions than server!'' []],
                protocol := None\<rparr>) \<and>
         ready (snd (verify_body env (Some p) t w)) = ready w \<and>
         protocol (snd (verify_body env (Some p) t w)) = None \<and>
         closed (protos (snd (verify_body env (Some p) t w)) p) \<and>
         last_tids (trace (snd (verify_body env (Some p) t w))) = last_tids (trace w)) \<and>
      (cache_nonempty env \<and> cache_getLastTid env = Some c \<and> c \<noteq> [] \<and> c = t \<longrightarrow>
         verify_body env (Some p) t w =
           verify_finish env (Some p) t (w\<lparr>verify_result := Some ''Cache up to date''\<rparr>)) \<and>
      (cache_nonempty env \<and> cache_getLastTid env = Some c \<and> c \<noteq> [] \<and> c < t \<longrightarrow>
         verify_body env (Some p) t w = (Inr (), snd (fut p ''getInvalidations'' [PBytes c] w))) \<and>
      verify_getInvalidations_reply env (Some p) t (Inr (Some (t', oids))) w =
        verify_finish env (Some p) t'
          (w\<lparr>verify_result := Some ''quick verification'',
             trace := trace w @ map (\<lambda>oid. CacheInvalidate oid None) oids @
                      [InvalidateTransaction t' oids]\<rparr>) \<and>
      verify_getInvalidations_reply env (Some p) t (Inr None) w =
        verify_finish env (Some p) t
          (w\<lparr>verify_result := Some ''cache too old, clearing'',
             trace := trace w @ [NotifyStaleCache, Log CRITICAL ''%s dropping stale cache'' [LClientName],
                                 CacheClear, InvalidateCache]\<rparr>) \<and>
      verify_finish env (Some p) t w =
        (Inr (),
         snd (fut p ''get_info'' []
                (w\<lparr>trace := trace w @ [CacheSetLastTid t], ready := Some True\<rparr>)))) \<and>
   (fault env (CacheSetLastTid t) = Some x \<longrightarrow>
      verify_finish env pr t w = (Inl x, w\<lparr>trace := trace w @ [CacheSetLastTid t]\<rparr>))"
proof -
  have entry: "verify env (Some t) w = verify_body env (protocol w) t w"
    by (simp add: verify_def)
  have fetched: "verify_lastTransaction_reply env pr (Inr t) w = verify_body env pr t w"
    by (simp add: verify_lastTransaction_reply_def)
  have empty: "verify_body env (Some p) t w =
      verify_finish env (Some p) t (w\<lparr>verify_result := Some ''empty cache''\<rparr>)"
    if "\<not> cache_nonempty env"
    using that by (simp add: verify_body_def verify_cache_def verify_end_def)
  have no_tid: "verify_body env (Some p) t w =
      verify_finish env (Some p) t
        (w\<lparr>verify_result := Some ''Non-empty cache w/o tid'',
           trace := trace w @ [Log ERROR ''Non-empty cache w/o tid -- clearing'' [],
                               CacheClear, InvalidateCache]\<rparr>)"
    if "\<forall>e. fault env e = None" "cache_nonempty env"
      "cache_getLastTid env = None \<or> cache_getLastTid env = Some []"
    using that
    by (auto simp: verify_body_def verify_cache_def verify_end_def clear_cache_quiet emit_def)
  have fatal: "verify_body env (Some p) t w =
      register_failed (ProtocolObj p) (ServerBehindClient t c (ProtocolObj p))
        (w\<lparr>verify_result := Some ''Cache newer than server'',
           trace := trace w @ [Log CRITICAL ''Client has seen newer transactions than server!'' []],
           protocol := None\<rparr>)"
    if "cache_nonempty env" "cache_getLastTid env = Some c" "c \<noteq> []" "t < c"
    using that by (rule verify_fatal)
  have same: "verify_body env (Some p) t w =
      verify_finish env (Some p) t (w\<lparr>verify_result := Some ''Cache up to date''\<rparr>)"
    if "cache_nonempty env" "cache_getLastTid env = Some c" "c \<noteq> []" "c = t"
    using that by (simp add: verify_body_def verify_cache_def verify_end_def)
  have older: "verify_body env (Some p) t w = (Inr (), snd (fut p ''getInvalidations'' [PBytes c] w))"
    if "cache_nonempty env" "cache_getLastTid env = Some c" "c \<noteq> []" "c < t"
  proof -
    from \<open>c < t\<close> have "c \<noteq> t" "\<not> t < c"
      by auto
    with that show ?thesis
      by (simp add: verify_body_def verify_cache_def verify_end_def fut_on_def case_prod_beta)
  qed
  have quick: "verify_getInvalidations_reply env (Some p) t (Inr (Some (t', oids))) w =
      verify_finish env (Some p) t'
        (w\<lparr>verify_result := Some ''quick verification'',
           trace := trace w @ map (\<lambda>oid. CacheInvalidate oid None) oids @
                    [InvalidateTransaction t' oids]\<rparr>)"
    if q: "\<forall>e. fault env e = None"
  proof -
    have "list_all (\<lambda>oid. fault env (CacheInvalidate oid None) = None) oids"
      using q by (simp add: list_all_iff)
    then have loop: "for_each oids (\<lambda>oid. ext env (CacheInvalidate oid None)) w0 =
        (Inr (), w0\<lparr>trace := trace w0 @ map (\<lambda>oid. CacheInvalidate oid None) oids\<rparr>)" for w0
      by (rule for_each_ext_quiet)
    show ?thesis
      using q
      by (simp add: verify_getInvalidations_reply_def verify_invalidations_def verify_end_def
          then_do_def loop ext_def emit_def)
  qed
  have stale: "verify_getInvalidations_reply env (Some p) t (Inr None) w =
      verify_finish env (Some p) t
        (w\<lparr>verify_result := Some ''cache too old, clearing'',
           trace := trace w @ [NotifyStaleCache, Log CRITICAL ''%s dropping stale cache'' [LClientName],
                               CacheClear, InvalidateCache]\<rparr>)"
    if "\<forall>e. fault env e = None"
    using that
    by (simp add: verify_getInvalidations_reply_def verify_invalidations_def verify_end_def
        clear_cache_quiet ext_def emit_def Let_def)
  have finish: "verify_finish env (Some p) t w =
      (Inr (),
       snd (fut p ''get_info'' [] (w\<lparr>trace := trace w @ [CacheSetLastTid t], ready := Some True\<rparr>)))"
    if "\<forall>e. fault env e = None"
    using that by (simp add: verify_finish_quiet)
  have fatal_effects:
    "ready (snd (verify_body env (Some p) t w)) = ready w \<and>
     protocol (snd (verify_body env (Some p) t w)) = None \<and>
     closed (protos (snd (verify_body env (Some p) t w)) p) \<and>
     last_tids (trace (snd (verify_body env (Some p) t w))) = last_tids (trace w)"
    if "cache_nonempty env" "cache_getLastTid env = Some c" "c \<noteq> []" "t < c"
    unfolding fatal [OF that]
    by (simp add: register_failed_protocol_effects last_tids_append)
  show ?thesis
    using entry fetched empty no_tid fatal fatal_effects same older quick stale finish
      verify_finish_fault [of env t x pr w]
    by blast
qed

theorem verify_case_analysis_witness:
  "verify env0 (Some ''09'') world4 =
     (Inr (),
      snd (fut 0 ''get_info'' []
             (world4\<lparr>verify_result := Some ''empty cache'', trace := [CacheSetLastTid ''09''],
                ready := Some True\<rparr>))) \<and>
   ready (snd (verify_body (env_cache (Some ''09'')) (Some 0) ''05'' world4)) = Some False \<and>
   closed (protos (snd (verify_body (env_cache (Some ''09'')) (Some 0) ''05'' world4)) 0) \<and>
   last_tids (trace (snd (verify_body (env_cache (Some ''09'')) (Some 0) ''05'' world4))) = [] \<and>
   verify_body (env_cache (Some ''05'')) (Some 0) ''09'' world4 =
     (Inr (), snd (fut 0 ''getInvalidations'' [PBytes ''05''] world4)) \<and>
   verify_getInvalidations_reply (env_cache (Some ''05'')) (Some 0) ''09''
       (Inr (Some (''10'', [''a'', ''b'']))) world4 =
     (Inr (),
      snd (fut 0 ''get_info'' []
             (world4\<lparr>verify_result := Some ''quick verification'',
                trace := [CacheInvalidate ''a'' None, CacheInvalidate ''b'' None,
                          InvalidateTransaction ''10'' [''a'', ''b''], CacheSetLastTid ''10''],
                ready := Some True\<rparr>)))"
proof -
  have q0: "\<forall>e. fault env0 e = None" and q1: "\<forall>e. fault (env_cache c) e = None" for c
    by (simp_all add: env0_def env_cache_def)
  have empty: "\<not> cache_nonempty env0"
    by (simp add: env0_def)
  have newer: "cache_nonempty (env_cache (Some ''09'')) \<and>
      cache_getLastTid (env_cache (Some ''09'')) = Some ''09'' \<and> ''09'' \<noteq> [] \<and>
      (''05'' :: tid) < ''09''"
    by (simp add: env_cache_def)
  have older: "cache_nonempty (env_cache (Some ''05'')) \<and>
      cache_getLastTid (env_cache (Some ''05'')) = Some ''05'' \<and> ''05'' \<noteq> [] \<and>
      (''05'' :: tid) < ''09''"
    by (simp add: env_cache_def)
  have adopted: "protocol world4 = Some 0" and r4: "ready world4 = Some False"
    and t4: "trace world4 = []"
    by (simp_all add: world4_def world0_def)
  note A = verify_case_analysis [where env = env0 and t = "''09''" and w = world4 and p = 0]
  note A' = verify_case_analysis [where env = env0 and t = "''09''" and p = 0
      and w = "world4\<lparr>verify_result := Some ''empty cache''\<rparr>"]
  note B = verify_case_analysis [where env = "env_cache (Some ''09'')" and t = "''05''"
      and w = world4 and p = 0 and c = "''09''"]
  note C = verify_case_analysis [where env = "env_cache (Some ''05'')" and t = "''09''"
      and w = world4 and p = 0 and c = "''05''" and t' = "''10''" and oids = "[''a'', ''b'']"]
  note C' = verify_case_analysis [where env = "env_cache (Some ''05'')" and t = "''10''" and p = 0
      and w = "world4\<lparr>verify_result := Some ''quick verification'',
             trace := trace world4 @ map (\<lambda>oid. CacheInvalidate oid None) [''a'', ''b''] @
                      [InvalidateTransaction ''10'' [''a'', ''b'']]\<rparr>"]
  have a1: "verify env0 (Some ''09'') world4 =
      verify_finish env0 (Some 0) ''09'' (world4\<lparr>verify_result := Some ''empty cache''\<rparr>)"
    using A q0 empty adopted by simp
  have a2: "verify_finish env0 (Some 0) ''09'' (world4\<lparr>verify_result := Some ''empty cache''\<rparr>) =
      (Inr (),
       snd (fut 0 ''get_info'' []
              (world4\<lparr>verify_result := Some ''empty cache'',
                 trace := trace (world4\<lparr>verify_result := Some ''empty cache''\<rparr>) @
                          [CacheSetLastTid ''09''],
                 ready := Some True\<rparr>)))"
    using A' q0 by simp
  have b: "ready (snd (verify_body (env_cache (Some ''09'')) (Some 0) ''05'' world4)) = ready world4 \<and>
      closed (protos (snd (verify_body (env_cache (Some ''09'')) (Some 0) ''05'' world4)) 0) \<and>
      last_tids (trace (snd (verify_body (env_cache (Some ''09'')) (Some 0) ''05'' world4))) =
        last_tids (trace world4)"
    using B q1 [of "Some ''09''"] newer by blast
  have c1: "verify_body (env_cache (Some ''05'')) (Some 0) ''09'' world4 =
      (Inr (), snd (fut 0 ''getInvalidations'' [PBytes ''05''] world4))"
    using C q1 [of "Some ''05''"] older by blast
  have c2: "verify_getInvalidations_reply (env_cache (Some ''05'')) (Some 0) ''09''
       (Inr (Some (''10'', [''a'', ''b'']))) world4 =
      verify_finish (env_cache (Some ''05'')) (Some 0) ''10''
        (world4\<lparr>verify_result := Some ''quick verification'',
           trace := trace world4 @ map (\<lambda>oid. CacheInvalidate oid None) [''a'', ''b''] @
                    [InvalidateTransaction ''10'' [''a'', ''b'']]\<rparr>)"
    using C q1 [of "Some ''05''"] by blast
  have c3: "verify_finish (env_cache (Some ''05'')) (Some 0) ''10''
        (world4\<lparr>verify_result := Some ''quick verification'',
           trace := trace world4 @ map (\<lambda>oid. CacheInvalidate oid None) [''a'', ''b''] @
                    [InvalidateTransaction ''10'' [''a'', ''b'']]\<rparr>) =
      (Inr (),
       snd (fut 0 ''get_info'' []
              (world4\<lparr>verify_result := Some ''quick verification'',
                 trace := trace world4 @ map (\<lambda>oid. CacheInvalidate oid None) [''a'', ''b''] @
                          [InvalidateTransaction ''10'' [''a'', ''b'']] @ [CacheSetLastTid ''10''],
                 ready := Some True\<rparr>)))"
    using C' q1 [of "Some ''05''"] by simp
  show ?thesis
    unfolding a1 a2 c1 c2 c3
    using b by (simp add: t4 r4)
qed



end
